theory Spec2Isabelle
  imports Main "HOL-Library.Word"
begin

section \<open>Values shared by the bridge\<close>

text \<open>
  A \<open>NativePointer\<close> is an address of the inspected process; \<open>NULL\<close> is address 0.
  The entity classes (\<open>Il2CppClass\<close>, \<open>Il2CppMethod\<close>, \<open>Il2CppType\<close>, ...) are views over
  such a handle, and two views are the same entity when their handles are equal.
\<close>

type_synonym NativePointer = nat

definition isNull :: "NativePointer \<Rightarrow> bool" where
  "isNull p = (p = 0)"

text \<open>The conditions a JavaScript \<open>throw\<close> can raise in the modelled code.\<close>

datatype error = InvalidHandle | TypeError | IOFailure | InvokeFailure

section \<open>JavaScript strings\<close>

text \<open>
  \<open>String.prototype.replace(pattern, replacement)\<close> with a string pattern: the first
  occurrence of the pattern, scanning from the left, is replaced; a string without the
  pattern is returned unchanged.
\<close>

fun js_replace :: "string \<Rightarrow> string \<Rightarrow> string \<Rightarrow> string" where
  "js_replace pat rep [] = (if pat = [] then rep else [])"
| "js_replace pat rep (c # cs) =
     (if take (length pat) (c # cs) = pat then rep @ drop (length pat) (c # cs)
      else c # js_replace pat rep cs)"

text \<open>
  A template literal renders \<open>null\<close> as the four characters \<open>null\<close>; \<open>Il2Cpp.String.content\<close>
  is a \<open>string | null\<close>.
\<close>

definition js_template :: "string option \<Rightarrow> string" where
  "js_template v = (case v of None \<Rightarrow> ''null'' | Some s \<Rightarrow> s)"

text \<open>Decimal rendering of a non-negative integer, as a template literal prints a number.\<close>

definition digit_char :: "nat \<Rightarrow> char" where
  "digit_char d = ''0123456789'' ! d"

fun js_number :: "nat \<Rightarrow> string" where
  "js_number n = (if n < 10 then [digit_char n] else js_number (n div 10) @ [digit_char (n mod 10)])"

declare js_number.simps [simp del]

section \<open>The by-name collection\<close>

text \<open>
  Modelled from the spec: the \<open>Accessor\<close> class (utils/accessor) is not in src/. Section 4.1
  gives its policy: insertion order follows traversal order, and a value stored under a key
  that is already present overwrites that key's slot. Iterating an Accessor yields its values
  in slot order; indexing it with an absent key yields \<open>undefined\<close>.
\<close>

type_synonym 'a Accessor = "(string \<times> 'a) list"

fun accessor_set :: "string \<Rightarrow> 'a \<Rightarrow> 'a Accessor \<Rightarrow> 'a Accessor" where
  "accessor_set k v [] = [(k, v)]"
| "accessor_set k v ((k', v') # slots) =
     (if k' = k then (k', v) # slots else (k', v') # accessor_set k v slots)"

definition accessor_get :: "'a Accessor \<Rightarrow> string \<Rightarrow> 'a option" where
  "accessor_get a k = map_of a k"

definition accessor_values :: "'a Accessor \<Rightarrow> 'a list" where
  "accessor_values a = map snd a"

text \<open>
  Modelled from the spec: \<open>getUntilFound\<close> (utils/utils) is not in src/. It returns the value
  of the first of the given keys that the record holds, and \<open>undefined\<close> when it holds none.
\<close>

fun getUntilFound :: "'a Accessor \<Rightarrow> string list \<Rightarrow> 'a option" where
  "getUntilFound r [] = None"
| "getUntilFound r (k # ks) =
     (case accessor_get r k of Some v \<Rightarrow> Some v | None \<Rightarrow> getUntilFound r ks)"

section \<open>Scratch memory\<close>

text \<open>
  The bytes of a block returned by \<open>Memory.alloc\<close>, by offset from its base; \<open>None\<close> is a
  byte that was never written. \<open>writeInt\<close> stores a 32-bit integer, least significant
  byte first.
\<close>

type_synonym memory = "nat \<Rightarrow> 8 word option"

definition Memory_alloc :: "nat \<Rightarrow> memory" where
  "Memory_alloc size_bytes = (\<lambda>offset. None)"

definition writeInt :: "nat \<Rightarrow> int \<Rightarrow> memory \<Rightarrow> memory" where
  "writeInt a v m =
     (let w = (word_of_int v :: 32 word)
      in m(a \<mapsto> ucast w,
           a + 1 \<mapsto> ucast (drop_bit 8 w),
           a + 2 \<mapsto> ucast (drop_bit 16 w),
           a + 3 \<mapsto> ucast (drop_bit 24 w)))"

section \<open>The inspected virtual machine\<close>

text \<open>
  \<open>Il2Cpp.Array.from(klass, elements)\<close>: a managed array of the given element class. The
  element class read from the corlib table is \<open>undefined\<close> when the table has no such name.
\<close>

record Il2CppArray =
  elementClass :: "NativePointer option"
  elements :: "NativePointer list"

definition Array_from :: "NativePointer option \<Rightarrow> NativePointer list \<Rightarrow> Il2CppArray" where
  "Array_from klass es = \<lparr>elementClass = klass, elements = es\<rparr>"

text \<open>
  Everything the code in src/ reads from its collaborators: the native entry points of
  \<open>Api\<close>, the version switch, and the getters of the entity classes that are not in src/
  (\<open>Il2CppClass\<close>, \<open>Il2CppType\<close>, \<open>Il2CppMethod\<close>, \<open>Il2Cpp.Domain\<close>). The metadata of the
  inspected process does not change during a session, so each is a function of its
  arguments. \<open>typeGetClassOrElementClass\<close> is given the bytes of the type descriptor it is
  pointed at. \<open>method_invoke\<close> calls a managed getter that returns an \<open>Il2Cpp.String\<close> and
  gives that string's \<open>content\<close>, or the condition the call raised.
\<close>

record VM =
  isLegacy :: bool
  offsetOfTypeEnum :: nat
  pointerSize :: nat
  imageGetClassCount :: "NativePointer \<Rightarrow> nat"
  imageGetClassStart :: "NativePointer \<Rightarrow> int"
  imageGetClass :: "NativePointer \<Rightarrow> nat \<Rightarrow> NativePointer"
  typeGetClassOrElementClass :: "memory \<Rightarrow> NativePointer"
  imageGetName :: "NativePointer \<Rightarrow> string"
  assemblyGetImage :: "NativePointer \<Rightarrow> NativePointer"
  assemblies :: "NativePointer Accessor"
  corlib :: NativePointer
  class_type :: "NativePointer \<Rightarrow> NativePointer"
  class_isGeneric :: "NativePointer \<Rightarrow> bool"
  class_genericParameterCount :: "NativePointer \<Rightarrow> nat"
  class_inflateRaw :: "NativePointer \<Rightarrow> Il2CppArray \<Rightarrow> NativePointer"
  class_methods :: "NativePointer \<Rightarrow> NativePointer Accessor"
  class_toString :: "NativePointer \<Rightarrow> string"
  type_name :: "NativePointer \<Rightarrow> string"
  type_object :: "NativePointer \<Rightarrow> NativePointer"
  method_name :: "NativePointer \<Rightarrow> string"
  method_isGeneric :: "NativePointer \<Rightarrow> bool"
  method_genericParameterCount :: "NativePointer \<Rightarrow> nat"
  method_inflateRaw :: "NativePointer \<Rightarrow> Il2CppArray \<Rightarrow> NativePointer"
  method_virtualAddress :: "NativePointer \<Rightarrow> NativePointer"
  method_relativeVirtualAddress :: "NativePointer \<Rightarrow> NativePointer"
  method_invoke :: "NativePointer \<Rightarrow> error + string option"

section \<open>Il2CppImage\<close>

text \<open>
  An image object: its handle and the slots of its \<open>@cache\<close> getters. A slot is \<open>None\<close>
  until the getter has returned once; from then on the getter returns the slot.
\<close>

record Il2CppImage =
  handle :: NativePointer
  classCount_cache :: "nat option"
  classStart_cache :: "int option"
  classes_cache :: "NativePointer Accessor option"
  name_cache :: "string option"

text \<open>
  Modelled from the spec: the \<open>nonNullHandle\<close> decorator and the constructor of
  \<open>Il2CppClass\<close> are not in src/. Section 4.1: constructing an entity over a null handle
  fails with \<open>InvalidHandle\<close>.
\<close>

definition new_Il2CppImage :: "NativePointer \<Rightarrow> error + Il2CppImage" where
  "new_Il2CppImage h =
     (if isNull h then Inl InvalidHandle
      else Inr \<lparr>handle = h, classCount_cache = None, classStart_cache = None,
                classes_cache = None, name_cache = None\<rparr>)"

definition new_Il2CppClass :: "NativePointer \<Rightarrow> error + NativePointer" where
  "new_Il2CppClass h = (if isNull h then Inl InvalidHandle else Inr h)"

definition Image_classCount :: "VM \<Rightarrow> Il2CppImage \<Rightarrow> nat \<times> Il2CppImage" where
  "Image_classCount vm img =
     (case classCount_cache img of
        Some n \<Rightarrow> (n, img)
      | None \<Rightarrow> (let n = imageGetClassCount vm (handle img)
                 in (n, img\<lparr>classCount_cache := Some n\<rparr>)))"

definition Image_classStart :: "VM \<Rightarrow> Il2CppImage \<Rightarrow> int \<times> Il2CppImage" where
  "Image_classStart vm img =
     (case classStart_cache img of
        Some n \<Rightarrow> (n, img)
      | None \<Rightarrow> (let n = imageGetClassStart vm (handle img)
                 in (n, img\<lparr>classStart_cache := Some n\<rparr>)))"

definition Image_name :: "VM \<Rightarrow> Il2CppImage \<Rightarrow> string \<times> Il2CppImage" where
  "Image_name vm img =
     (case name_cache img of
        Some n \<Rightarrow> (n, img)
      | None \<Rightarrow> (let n = imageGetName vm (handle img)
                 in (n, img\<lparr>name_cache := Some n\<rparr>)))"

text \<open>\<open>klass.type.name\<close>: the full type name of a class, the key of the by-name table.\<close>

definition class_type_name :: "VM \<Rightarrow> NativePointer \<Rightarrow> string" where
  "class_type_name vm klass = type_name vm (class_type vm klass)"

text \<open>The loop of the legacy branch: \<open>for (let i = start; i < end; i++)\<close>.\<close>

function legacy_loop ::
  "VM \<Rightarrow> int \<Rightarrow> int \<Rightarrow> memory \<Rightarrow> NativePointer Accessor \<Rightarrow> error + NativePointer Accessor" where
  "legacy_loop vm i endi globalIndex accessor =
     (if i < endi then
        (let globalIndex' = writeInt 0 i globalIndex in
         case new_Il2CppClass (typeGetClassOrElementClass vm globalIndex') of
           Inl e \<Rightarrow> Inl e
         | Inr klass \<Rightarrow>
             legacy_loop vm (i + 1) endi globalIndex'
               (accessor_set (class_type_name vm klass) klass accessor))
      else Inr accessor)"
  by pat_completeness auto
termination
  by (relation "measure (\<lambda>(vm, i, endi, globalIndex, accessor). nat (endi - i))") auto

declare legacy_loop.simps [simp del]

text \<open>The loop of the current branch: \<open>for (let i = 0; i < end; i++)\<close>.\<close>

function current_loop ::
  "VM \<Rightarrow> NativePointer \<Rightarrow> nat \<Rightarrow> nat \<Rightarrow> NativePointer Accessor \<Rightarrow> error + NativePointer Accessor" where
  "current_loop vm h i endi accessor =
     (if i < endi then
        (case new_Il2CppClass (imageGetClass vm h i) of
           Inl e \<Rightarrow> Inl e
         | Inr klass \<Rightarrow>
             current_loop vm h (i + 1) endi
               (accessor_set (class_type_name vm klass) klass accessor))
      else Inr accessor)"
  by pat_completeness auto
termination
  by (relation "measure (\<lambda>(vm, h, i, endi, accessor). endi - i)") auto

declare current_loop.simps [simp del]

text \<open>
  The \<open>classes\<close> getter. A getter that throws leaves its own slot empty; the slots that the
  getters it called have filled stay filled.
\<close>

definition Image_classes :: "VM \<Rightarrow> Il2CppImage \<Rightarrow> (error + NativePointer Accessor) \<times> Il2CppImage" where
  "Image_classes vm img =
     (case classes_cache img of
        Some accessor \<Rightarrow> (Inr accessor, img)
      | None \<Rightarrow>
          (if isLegacy vm then
             (let (start, img1) = Image_classStart vm img;
                  (count, img2) = Image_classCount vm img1;
                  endi = start + int count;
                  globalIndex = writeInt (offsetOfTypeEnum vm) 0x20 (Memory_alloc (pointerSize vm))
              in case legacy_loop vm start endi globalIndex [] of
                   Inl e \<Rightarrow> (Inl e, img2)
                 | Inr accessor \<Rightarrow> (Inr accessor, img2\<lparr>classes_cache := Some accessor\<rparr>))
           else
             (let (endi, img1) = Image_classCount vm img
              in case current_loop vm (handle img) 0 endi [] of
                   Inl e \<Rightarrow> (Inl e, img1)
                 | Inr accessor \<Rightarrow> (Inr accessor, img1\<lparr>classes_cache := Some accessor\<rparr>))))"

section \<open>Il2CppAssembly\<close>

text \<open>
  An assembly is its handle. Its two getters are cached as well, and the image object that
  \<open>image\<close> returns keeps its own slots between reads. These slots are left out here and
  every read goes to a fresh image object: a getter of an image object gives the same value
  whether its slots are empty or were filled by earlier reads (lemma
  \<open>Image_classes_any_object\<close> below).
\<close>

definition Assembly_image :: "VM \<Rightarrow> NativePointer \<Rightarrow> error + Il2CppImage" where
  "Assembly_image vm assembly = new_Il2CppImage (assemblyGetImage vm assembly)"

definition Assembly_name :: "VM \<Rightarrow> NativePointer \<Rightarrow> error + string" where
  "Assembly_name vm assembly =
     (case Assembly_image vm assembly of
        Inl e \<Rightarrow> Inl e
      | Inr img \<Rightarrow> Inr (js_replace ''.dll'' [] (fst (Image_name vm img))))"

section \<open>Il2CppDumper\<close>

text \<open>
  Modelled from the spec: \<open>formatNativePointer\<close> (utils/utils) is not in src/. Section 4.4
  and section 6: the address column is a fixed-width hexadecimal token with a prefix. Here
  the token is \<open>0x\<close> followed by two hexadecimal digits for each byte of a pointer.
\<close>

definition hex_char :: "nat \<Rightarrow> char" where
  "hex_char d = ''0123456789abcdef'' ! d"

fun hex_fixed :: "nat \<Rightarrow> nat \<Rightarrow> string" where
  "hex_fixed 0 v = []"
| "hex_fixed (Suc n) v = hex_fixed n (v div 16) @ [hex_char (v mod 16)]"

definition formatNativePointer :: "nat \<Rightarrow> NativePointer \<Rightarrow> string" where
  "formatNativePointer pointer_bytes p = ''0x'' @ hex_fixed (2 * pointer_bytes) p"

text \<open>
  What one run of a generator does, in program order: a progress notice (\<open>inform\<close>), a
  request to the generic resolver (\<open>inflateRaw\<close> on a class or on a method, with the
  argument array), or a yielded chunk. A run ends normally or with the condition thrown.
\<close>

datatype effect =
    Inform string
  | InflateClass NativePointer Il2CppArray
  | InflateMethod NativePointer Il2CppArray
  | Yield string

type_synonym run = "effect list \<times> error option"

fun chunks :: "effect list \<Rightarrow> string list" where
  "chunks [] = []"
| "chunks (Yield s # es) = s # chunks es"
| "chunks (e # es) = chunks es"

fun notices :: "effect list \<Rightarrow> string list" where
  "notices [] = []"
| "notices (Inform s # es) = s # notices es"
| "notices (e # es) = notices es"

text \<open>\<open>for (const assembly of Il2Cpp.Domain.assemblies)\<close>: a throw ends the whole run.\<close>

fun assemblies_loop :: "(NativePointer \<Rightarrow> run) \<Rightarrow> NativePointer list \<Rightarrow> run" where
  "assemblies_loop body [] = ([], None)"
| "assemblies_loop body (assembly # rest) =
     (case body assembly of
        (es, Some e) \<Rightarrow> (es, Some e)
      | (es, None) \<Rightarrow> (case assemblies_loop body rest of (es', r) \<Rightarrow> (es @ es', r)))"

subsection \<open>The Classes dump\<close>

fun classes_klass_loop :: "VM \<Rightarrow> NativePointer list \<Rightarrow> effect list" where
  "classes_klass_loop vm [] = []"
| "classes_klass_loop vm (klass # rest) = Yield (class_toString vm klass) # classes_klass_loop vm rest"

definition classes_assembly :: "VM \<Rightarrow> NativePointer \<Rightarrow> run" where
  "classes_assembly vm assembly =
     (case Assembly_name vm assembly of
        Inl e \<Rightarrow> ([], Some e)
      | Inr name \<Rightarrow>
          (let notice = Inform (''Dumping '' @ [CHR 0x1B] @ ''[1m'' @ name @ [CHR 0x1B] @ ''[0m...'') in
           case Assembly_image vm assembly of
             Inl e \<Rightarrow> ([notice], Some e)
           | Inr img \<Rightarrow>
               (case fst (Image_classes vm img) of
                  Inl e \<Rightarrow> ([notice], Some e)
                | Inr classes \<Rightarrow> (notice # classes_klass_loop vm (accessor_values classes), None))))"

definition classes_generator :: "VM \<Rightarrow> run" where
  "classes_generator vm = assemblies_loop (classes_assembly vm) (accessor_values (assemblies vm))"

subsection \<open>The Methods dump\<close>

definition getTypeArray :: "NativePointer option \<Rightarrow> NativePointer \<Rightarrow> nat \<Rightarrow> Il2CppArray" where
  "getTypeArray SystemType SystemObject genericParameterCount =
     Array_from SystemType (replicate genericParameterCount SystemObject)"

text \<open>
  The body of \<open>for (let method of klass.methods)\<close>. \<open>klass\<close> is the loop variable of the
  enclosing loop as it stands when the inner loop runs, that is after the reassignment
  \<open>klass = klass.inflateRaw(...)\<close> when that was executed.
\<close>

definition methods_method :: "VM \<Rightarrow> (nat \<Rightarrow> Il2CppArray) \<Rightarrow> NativePointer \<Rightarrow> NativePointer \<Rightarrow> effect list" where
  "methods_method vm typeArray klass method0 =
     (let inflate = (method_isGeneric vm method0 \<and> \<not> class_isGeneric vm klass);
          arguments = typeArray (method_genericParameterCount vm method0);
          method = (if inflate then method_inflateRaw vm method0 arguments else method0)
      in (if inflate then [InflateMethod method0 arguments] else []) @
         (if \<not> isNull (method_virtualAddress vm method)
          then [Yield (formatNativePointer (pointerSize vm) (method_relativeVirtualAddress vm method)
                       @ '' '' @ class_type_name vm klass @ ''.'' @ method_name vm method @ [CHR 0x0A])]
          else []))"

fun methods_method_loop ::
  "VM \<Rightarrow> (nat \<Rightarrow> Il2CppArray) \<Rightarrow> NativePointer \<Rightarrow> NativePointer list \<Rightarrow> effect list" where
  "methods_method_loop vm typeArray klass [] = []"
| "methods_method_loop vm typeArray klass (method # rest) =
     methods_method vm typeArray klass method @ methods_method_loop vm typeArray klass rest"

text \<open>The body of \<open>for (let klass of assembly.image.classes)\<close>.\<close>

definition methods_klass :: "VM \<Rightarrow> (nat \<Rightarrow> Il2CppArray) \<Rightarrow> NativePointer \<Rightarrow> effect list" where
  "methods_klass vm typeArray klass0 =
     (let inflate = class_isGeneric vm klass0;
          arguments = typeArray (class_genericParameterCount vm klass0);
          klass = (if inflate then class_inflateRaw vm klass0 arguments else klass0)
      in (if inflate then [InflateClass klass0 arguments] else []) @
         methods_method_loop vm typeArray klass (accessor_values (class_methods vm klass)))"

fun methods_klass_loop :: "VM \<Rightarrow> (nat \<Rightarrow> Il2CppArray) \<Rightarrow> NativePointer list \<Rightarrow> effect list" where
  "methods_klass_loop vm typeArray [] = []"
| "methods_klass_loop vm typeArray (klass # rest) =
     methods_klass vm typeArray klass @ methods_klass_loop vm typeArray rest"

definition methods_assembly :: "VM \<Rightarrow> (nat \<Rightarrow> Il2CppArray) \<Rightarrow> NativePointer \<Rightarrow> run" where
  "methods_assembly vm typeArray assembly =
     (case Assembly_name vm assembly of
        Inl e \<Rightarrow> ([], Some e)
      | Inr name \<Rightarrow>
          (let notice = Inform (''Dumping methods from '' @ [CHR 0x1B] @ ''[1m'' @ name @ [CHR 0x1B] @ ''[0m...'') in
           case Assembly_image vm assembly of
             Inl e \<Rightarrow> ([notice], Some e)
           | Inr img \<Rightarrow>
               (case fst (Image_classes vm img) of
                  Inl e \<Rightarrow> ([notice], Some e)
                | Inr classes \<Rightarrow> (notice # methods_klass_loop vm typeArray (accessor_values classes), None))))"

definition methods_generator :: "NativePointer option \<Rightarrow> NativePointer \<Rightarrow> VM \<Rightarrow> run" where
  "methods_generator SystemType SystemObject vm =
     assemblies_loop (methods_assembly vm (getTypeArray SystemType SystemObject))
       (accessor_values (assemblies vm))"

subsection \<open>The builder\<close>

record Dumper =
  p_directoryPath :: "string option"
  p_fileName :: "string option"
  p_extension :: "string option"
  p_generator :: "(VM \<Rightarrow> run) option"

definition new_Dumper :: Dumper where
  "new_Dumper = \<lparr>p_directoryPath = None, p_fileName = None, p_extension = None, p_generator = None\<rparr>"

definition Dumper_directoryPath :: "string \<Rightarrow> Dumper \<Rightarrow> Dumper" where
  "Dumper_directoryPath directoryPath this = this\<lparr>p_directoryPath := Some directoryPath\<rparr>"

definition Dumper_fileName :: "string \<Rightarrow> Dumper \<Rightarrow> Dumper" where
  "Dumper_fileName fileName this = this\<lparr>p_fileName := Some fileName\<rparr>"

definition Dumper_classes :: "Dumper \<Rightarrow> Dumper" where
  "Dumper_classes this = this\<lparr>p_generator := Some classes_generator, p_extension := Some ''cs''\<rparr>"

text \<open>
  \<open>methods()\<close> reads \<open>System.Type\<close> and \<open>System.Object\<close> from the corlib table before it
  stores the generator. Reading \<open>.type\<close> of a missing \<open>System.Object\<close> is a \<open>TypeError\<close>; a
  missing \<open>System.Type\<close> is passed on as \<open>undefined\<close>.
\<close>

definition Dumper_methods :: "VM \<Rightarrow> Dumper \<Rightarrow> error + Dumper" where
  "Dumper_methods vm this =
     (case new_Il2CppImage (corlib vm) of
        Inl e \<Rightarrow> Inl e
      | Inr img \<Rightarrow>
          (case fst (Image_classes vm img) of
             Inl e \<Rightarrow> Inl e
           | Inr classes \<Rightarrow>
               (let SystemType = accessor_get classes ''System.Type'' in
                case accessor_get classes ''System.Object'' of
                  None \<Rightarrow> Inl TypeError
                | Some klass \<Rightarrow>
                    (let SystemObject = type_object vm (class_type vm klass)
                     in Inr (this\<lparr>p_generator := Some (methods_generator SystemType SystemObject),
                                  p_extension := Some ''ms''\<rparr>)))))"

text \<open>
  The class \<open>UnityEngine.Application\<close> as both default getters look it up: the image of the
  first of the two assemblies found, then its by-name table. A missing assembly is a
  \<open>TypeError\<close> at \<open>.image\<close>; a missing class is \<open>undefined\<close>.
\<close>

definition find_Application :: "VM \<Rightarrow> error + NativePointer option" where
  "find_Application vm =
     (case getUntilFound (assemblies vm) [''UnityEngine.CoreModule'', ''UnityEngine''] of
        None \<Rightarrow> Inl TypeError
      | Some assembly \<Rightarrow>
          (case Assembly_image vm assembly of
             Inl e \<Rightarrow> Inl e
           | Inr UnityEngine \<Rightarrow>
               (case fst (Image_classes vm UnityEngine) of
                  Inl e \<Rightarrow> Inl e
                | Inr classes \<Rightarrow> Inr (accessor_get classes ''UnityEngine.Application''))))"

definition defaultDirectoryPath :: "VM \<Rightarrow> error + string option" where
  "defaultDirectoryPath vm =
     (case find_Application vm of
        Inl e \<Rightarrow> Inl e
      | Inr None \<Rightarrow> Inl TypeError
      | Inr (Some Application) \<Rightarrow>
          (case accessor_get (class_methods vm Application) ''get_persistentDataPath'' of
             None \<Rightarrow> Inl TypeError
           | Some method \<Rightarrow> method_invoke vm method))"

text \<open>The \<open>try\<close> block of \<open>defaultFileName\<close>.\<close>

definition identifier_and_version :: "VM \<Rightarrow> NativePointer option \<Rightarrow> error + string" where
  "identifier_and_version vm Application =
     (case Application of
        None \<Rightarrow> Inl TypeError
      | Some app \<Rightarrow>
          (case getUntilFound (class_methods vm app) [''get_identifier'', ''get_bundleIdentifier''] of
             None \<Rightarrow> Inl TypeError
           | Some getter \<Rightarrow>
               (case method_invoke vm getter of
                  Inl e \<Rightarrow> Inl e
                | Inr identifier \<Rightarrow>
                    (case accessor_get (class_methods vm app) ''get_version'' of
                       None \<Rightarrow> Inl TypeError
                     | Some get_version \<Rightarrow>
                         (case method_invoke vm get_version of
                            Inl e \<Rightarrow> Inl e
                          | Inr version \<Rightarrow>
                              Inr (js_template identifier @ ''_'' @ js_template version))))))"

text \<open>The host of the script: which paths can be opened for writing, and the clock.\<close>

record Host =
  writable :: "string \<Rightarrow> bool"
  clock :: nat

definition defaultFileName :: "VM \<Rightarrow> Host \<Rightarrow> error + string" where
  "defaultFileName vm host =
     (case find_Application vm of
        Inl e \<Rightarrow> Inl e
      | Inr Application \<Rightarrow>
          (case identifier_and_version vm Application of
             Inr name \<Rightarrow> Inr name
           | Inl e \<Rightarrow> Inr (js_number (clock host))))"

text \<open>
  A \<open>File\<close> of the script runtime: \<open>new File(path, "w")\<close> truncates the file or throws,
  \<open>write\<close> appends to the stream's buffer, \<open>flush\<close> moves the buffer to the disk, and
  \<open>close\<close> flushes what is left and releases the handle. \<open>on_disk\<close> is what is known to
  have reached the file, \<open>pending\<close> what was written since the last flush.
\<close>

record File =
  file_path :: string
  on_disk :: string
  pending :: string
  is_open :: bool

definition File_new :: "Host \<Rightarrow> string \<Rightarrow> error + File" where
  "File_new host path =
     (if writable host path
      then Inr \<lparr>file_path = path, on_disk = [], pending = [], is_open = True\<rparr>
      else Inl IOFailure)"

definition File_write :: "string \<Rightarrow> File \<Rightarrow> File" where
  "File_write chunk f = f\<lparr>pending := pending f @ chunk\<rparr>"

definition File_flush :: "File \<Rightarrow> File" where
  "File_flush f = f\<lparr>on_disk := on_disk f @ pending f, pending := []\<rparr>"

definition File_close :: "File \<Rightarrow> File" where
  "File_close f = (File_flush f)\<lparr>is_open := False\<rparr>"

text \<open>\<open>for (const chunk of generator()) file.write(chunk)\<close>, over the chunks a run yields.\<close>

fun write_loop :: "string list \<Rightarrow> File \<Rightarrow> File" where
  "write_loop [] f = f"
| "write_loop (chunk # rest) f = write_loop rest (File_write chunk f)"

datatype level = Info | Ok

record BuildResult =
  out_file :: "File option"
  console :: "(level \<times> string) list"
  thrown :: "error option"

definition destinationPath :: "VM \<Rightarrow> Host \<Rightarrow> Dumper \<Rightarrow> error + string" where
  "destinationPath vm host this =
     (case (case p_directoryPath this of Some p \<Rightarrow> Inr (Some p) | None \<Rightarrow> defaultDirectoryPath vm) of
        Inl e \<Rightarrow> Inl e
      | Inr directoryPath \<Rightarrow>
          (case (case p_fileName this of Some n \<Rightarrow> Inr n | None \<Rightarrow> defaultFileName vm host) of
             Inl e \<Rightarrow> Inl e
           | Inr fileName \<Rightarrow>
               Inr (js_template directoryPath @ ''/'' @ fileName @ ''.'' @
                    (case p_extension this of Some x \<Rightarrow> x | None \<Rightarrow> ''dump''))))"

definition build :: "VM \<Rightarrow> Host \<Rightarrow> Dumper \<Rightarrow> BuildResult" where
  "build vm host this =
     (case destinationPath vm host this of
        Inl e \<Rightarrow> \<lparr>out_file = None, console = [], thrown = Some e\<rparr>
      | Inr path \<Rightarrow>
          (case File_new host path of
             Inl e \<Rightarrow> \<lparr>out_file = None, console = [], thrown = Some e\<rparr>
           | Inr f \<Rightarrow>
               (case p_generator this of
                  None \<Rightarrow> \<lparr>out_file = Some f, console = [], thrown = Some TypeError\<rparr>
                | Some generator \<Rightarrow>
                    (case generator vm of
                       (effects, Some e) \<Rightarrow>
                         \<lparr>out_file = Some (write_loop (chunks effects) f),
                          console = map (Pair Info) (notices effects),
                          thrown = Some e\<rparr>
                     | (effects, None) \<Rightarrow>
                         \<lparr>out_file = Some (File_close (File_flush (write_loop (chunks effects) f))),
                          console = map (Pair Info) (notices effects) @
                                    [(Ok, ''Dump saved to '' @ path @ ''.'')],
                          thrown = None\<rparr>))))"

section \<open>Notions used to state the properties\<close>

text \<open>
  \<open>String.prototype.indexOf\<close> with a string argument: the index of the first occurrence,
  \<open>None\<close> where JavaScript returns \<open>-1\<close>.
\<close>

fun js_indexOf :: "string \<Rightarrow> string \<Rightarrow> nat option" where
  "js_indexOf pat [] = (if pat = [] then Some 0 else None)"
| "js_indexOf pat (c # cs) =
     (if take (length pat) (c # cs) = pat then Some 0 else map_option Suc (js_indexOf pat cs))"

text \<open>
  The by-name table that results from storing a sequence of classes one after the other,
  each under its full type name, starting from the slots \<open>a\<close>; and the same with the
  constructor's null check, which ends the traversal at the first null handle.
\<close>

definition table_of :: "('a \<Rightarrow> string) \<Rightarrow> 'a list \<Rightarrow> 'a Accessor \<Rightarrow> 'a Accessor" where
  "table_of f ks a = fold (\<lambda>k. accessor_set (f k) k) ks a"

fun collect :: "VM \<Rightarrow> NativePointer list \<Rightarrow> NativePointer Accessor \<Rightarrow> error + NativePointer Accessor" where
  "collect vm [] accessor = Inr accessor"
| "collect vm (h # hs) accessor =
     (case new_Il2CppClass h of
        Inl e \<Rightarrow> Inl e
      | Inr klass \<Rightarrow> collect vm hs (accessor_set (class_type_name vm klass) klass accessor))"

text \<open>The last element of a sequence that has a given key.\<close>

definition last_with :: "('a \<Rightarrow> string) \<Rightarrow> 'a list \<Rightarrow> string \<Rightarrow> 'a option" where
  "last_with f ks n = find (\<lambda>k. f k = n) (rev ks)"

text \<open>The keys of a sequence in the order of their first occurrence.\<close>

definition first_occurrences :: "string list \<Rightarrow> string list" where
  "first_occurrences ns = rev (remdups (rev ns))"

text \<open>
  The type descriptor the legacy branch hands to the VM for index \<open>i\<close>: a fresh block with
  the type enum \<open>0x20\<close> written at \<open>offsetOfTypeEnum\<close> and the index written at offset 0.
\<close>

definition descriptor :: "VM \<Rightarrow> int \<Rightarrow> memory" where
  "descriptor vm i =
     writeInt 0 i (writeInt (offsetOfTypeEnum vm) 0x20 (Memory_alloc (pointerSize vm)))"

text \<open>
  The class handles the \<open>classes\<close> getter asks the VM for, in the order it asks: under the
  current layout the classes \<open>0\<close> to \<open>classCount - 1\<close> of the image, under the legacy layout
  the classes that the descriptors of the indices \<open>classStart\<close> to
  \<open>classStart + classCount - 1\<close> resolve to.
\<close>

definition current_traversal :: "VM \<Rightarrow> NativePointer \<Rightarrow> NativePointer list" where
  "current_traversal vm h = map (imageGetClass vm h) [0..<imageGetClassCount vm h]"

definition legacy_indices :: "VM \<Rightarrow> NativePointer \<Rightarrow> int list" where
  "legacy_indices vm h =
     [imageGetClassStart vm h..imageGetClassStart vm h + int (imageGetClassCount vm h) - 1]"

definition legacy_traversal :: "VM \<Rightarrow> NativePointer \<Rightarrow> NativePointer list" where
  "legacy_traversal vm h =
     map (\<lambda>i. typeGetClassOrElementClass vm (descriptor vm i)) (legacy_indices vm h)"

definition image_traversal :: "VM \<Rightarrow> NativePointer \<Rightarrow> NativePointer list" where
  "image_traversal vm h = (if isLegacy vm then legacy_traversal vm h else current_traversal vm h)"

text \<open>
  Reading back what \<open>writeInt\<close> stores: the 32-bit two's-complement integer whose bytes
  stand at offsets \<open>a\<close> to \<open>a + 3\<close>, least significant first; \<open>None\<close> when one of them was
  never written.
\<close>

definition readInt :: "nat \<Rightarrow> memory \<Rightarrow> int option" where
  "readInt a m =
     (case (m a, m (a + 1), m (a + 2), m (a + 3)) of
        (Some b0, Some b1, Some b2, Some b3) \<Rightarrow>
          Some (sint (word_cat b3 (word_cat b2 (word_cat b1 b0 :: 16 word) :: 24 word) :: 32 word))
      | _ \<Rightarrow> None)"

text \<open>A freshly constructed image object over a handle.\<close>

definition fresh_image :: "NativePointer \<Rightarrow> Il2CppImage" where
  "fresh_image h = \<lparr>handle = h, classCount_cache = None, classStart_cache = None,
                     classes_cache = None, name_cache = None\<rparr>"

text \<open>
  An image object whose filled slots hold what the VM gives for its handle. The objects of a
  session are of this kind: they start fresh and are changed by their getters only.
\<close>

definition cache_consistent :: "VM \<Rightarrow> Il2CppImage \<Rightarrow> bool" where
  "cache_consistent vm img =
     ((case classCount_cache img of None \<Rightarrow> True
       | Some n \<Rightarrow> n = imageGetClassCount vm (handle img)) \<and>
      (case classStart_cache img of None \<Rightarrow> True
       | Some n \<Rightarrow> n = imageGetClassStart vm (handle img)) \<and>
      (case name_cache img of None \<Rightarrow> True
       | Some n \<Rightarrow> n = imageGetName vm (handle img)) \<and>
      (case classes_cache img of None \<Rightarrow> True
       | Some a \<Rightarrow> collect vm (image_traversal vm (handle img)) [] = Inr a))"

text \<open>
  The class whose methods the Methods dump traverses for a class of an image, and the
  method it tests and prints for a method of that class.
\<close>

definition traversed_klass :: "VM \<Rightarrow> (nat \<Rightarrow> Il2CppArray) \<Rightarrow> NativePointer \<Rightarrow> NativePointer" where
  "traversed_klass vm typeArray klass0 =
     (if class_isGeneric vm klass0
      then class_inflateRaw vm klass0 (typeArray (class_genericParameterCount vm klass0))
      else klass0)"

definition reached_method :: "VM \<Rightarrow> (nat \<Rightarrow> Il2CppArray) \<Rightarrow> NativePointer \<Rightarrow> NativePointer \<Rightarrow> NativePointer" where
  "reached_method vm typeArray klass method0 =
     (if method_isGeneric vm method0 \<and> \<not> class_isGeneric vm klass
      then method_inflateRaw vm method0 (typeArray (method_genericParameterCount vm method0))
      else method0)"

definition method_line :: "VM \<Rightarrow> NativePointer \<Rightarrow> NativePointer \<Rightarrow> string" where
  "method_line vm klass method =
     formatNativePointer (pointerSize vm) (method_relativeVirtualAddress vm method)
       @ '' '' @ class_type_name vm klass @ ''.'' @ method_name vm method @ [CHR 0x0A]"

text \<open>
  The assemblies whose loop body a run enters: all of them up to and including the first
  whose body throws.
\<close>

fun entered :: "(NativePointer \<Rightarrow> run) \<Rightarrow> NativePointer list \<Rightarrow> NativePointer list" where
  "entered body [] = []"
| "entered body (assembly # rest) =
     (if snd (body assembly) = None then assembly # entered body rest else [assembly])"

text \<open>
  The classes a dump traverses for an assembly: the values of the by-name table of its
  image, in slot order; none when the image or one of its classes cannot be constructed.
\<close>

definition dumped_classes :: "VM \<Rightarrow> NativePointer \<Rightarrow> NativePointer list" where
  "dumped_classes vm assembly =
     (case Assembly_image vm assembly of
        Inl e \<Rightarrow> []
      | Inr img \<Rightarrow>
          (case fst (Image_classes vm img) of
             Inl e \<Rightarrow> []
           | Inr classes \<Rightarrow> accessor_values classes))"

text \<open>
  The lines of the Methods dump for one class of an image: one for each method reached in
  the class traversed whose virtual address is not null, in the order of the methods.
\<close>

definition class_lines :: "VM \<Rightarrow> (nat \<Rightarrow> Il2CppArray) \<Rightarrow> NativePointer \<Rightarrow> string list" where
  "class_lines vm typeArray klass0 =
     map (\<lambda>m. formatNativePointer (pointerSize vm) (method_relativeVirtualAddress vm m)
               @ '' '' @ class_type_name vm (traversed_klass vm typeArray klass0)
               @ ''.'' @ method_name vm m @ [CHR 0x0A])
       (filter (\<lambda>m. \<not> isNull (method_virtualAddress vm m))
          (map (reached_method vm typeArray (traversed_klass vm typeArray klass0))
             (accessor_values (class_methods vm (traversed_klass vm typeArray klass0)))))"


definition is_hex_digit :: "char \<Rightarrow> bool" where
  "is_hex_digit c = (c \<in> set ''0123456789abcdef'')"

text \<open>
  What is asked of one effect of a Methods dump: a request to the generic resolver passes
  as many arguments as the class or method has generic parameters, each of them \<open>root\<close>.
\<close>

definition placeholder_request :: "VM \<Rightarrow> NativePointer \<Rightarrow> effect \<Rightarrow> bool" where
  "placeholder_request vm root e =
     (case e of
        InflateClass k arguments \<Rightarrow>
          length (elements arguments) = class_genericParameterCount vm k \<and>
          list_all (\<lambda>x. x = root) (elements arguments)
      | InflateMethod m arguments \<Rightarrow>
          length (elements arguments) = method_genericParameterCount vm m \<and>
          list_all (\<lambda>x. x = root) (elements arguments)
      | Inform s \<Rightarrow> True
      | Yield s \<Rightarrow> True)"

section \<open>An example process\<close>

text \<open>
  Three assemblies. \<open>mscorlib\<close> holds \<open>System.Object\<close> and \<open>System.Type\<close>;
  \<open>UnityEngine.CoreModule\<close> holds \<open>UnityEngine.Application\<close> with the three getters the
  dumper's defaults call; \<open>Game\<close> holds the class \<open>Game.Player\<close> (a compiled method, a
  method without a body and a generic method) and the generic class \<open>Game.Box<T>\<close>, whose
  instantiation over \<open>System.Object\<close> is the class 106 with a compiled method and a generic
  one. Handles: assemblies 1 to 3, images 11 to 13, classes 101 to 106, the type of class
  \<open>k\<close> is \<open>k + 100\<close>, the reflection object of type \<open>t\<close> is \<open>t + 200\<close>, methods from 301.
\<close>

definition example_table :: "nat \<Rightarrow> NativePointer" where
  "example_table i =
     (if i = 0 then 101 else if i = 1 then 102 else if i = 2 then 103
      else if i = 3 then 104 else if i = 4 then 105 else 0)"

definition example_vm :: VM where
  "example_vm = \<lparr>
     isLegacy = False,
     offsetOfTypeEnum = 10,
     pointerSize = 4,
     imageGetClassCount = (\<lambda>h. if h = 11 then 2 else if h = 12 then 1 else if h = 13 then 2 else 0),
     imageGetClassStart = (\<lambda>h. if h = 11 then 0 else if h = 12 then 2 else if h = 13 then 3 else 0),
     imageGetClass = (\<lambda>h n. if h = 11 \<and> n < 2 then example_table n
                            else if h = 12 \<and> n < 1 then example_table (2 + n)
                            else if h = 13 \<and> n < 2 then example_table (3 + n) else 0),
     typeGetClassOrElementClass =
       (\<lambda>d. case d 0 of None \<Rightarrow> 0 | Some b \<Rightarrow> example_table (unat b)),
     imageGetName = (\<lambda>h. if h = 11 then ''mscorlib.dll''
                          else if h = 12 then ''UnityEngine.CoreModule.dll''
                          else if h = 13 then ''Game.dll'' else []),
     assemblyGetImage = (\<lambda>a. if a = 1 then 11 else if a = 2 then 12 else if a = 3 then 13 else 0),
     assemblies = [(''mscorlib'', 1), (''UnityEngine.CoreModule'', 2), (''Game'', 3)],
     corlib = 11,
     class_type = (\<lambda>k. k + 100),
     class_isGeneric = (\<lambda>k. k = 105),
     class_genericParameterCount = (\<lambda>k. if k = 105 then 1 else 0),
     class_inflateRaw = (\<lambda>k arguments. if k = 105 then 106 else 0),
     class_methods =
       (\<lambda>k. if k = 103 then [(''get_persistentDataPath'', 301), (''get_identifier'', 302),
                              (''get_version'', 303)]
            else if k = 104 then [(''Update'', 304), (''Render'', 305), (''Cast'', 306)]
            else if k = 105 then [(''Get'', 308), (''Map'', 309)]
            else if k = 106 then [(''Get'', 318), (''Map'', 319)] else []),
     class_toString =
       (\<lambda>k. if k = 101 then ''class System.Object'' else if k = 102 then ''class System.Type''
            else if k = 103 then ''class UnityEngine.Application''
            else if k = 104 then ''class Game.Player''
            else if k = 105 then ''class Game.Box<T>'' else []),
     type_name =
       (\<lambda>t. if t = 201 then ''System.Object'' else if t = 202 then ''System.Type''
            else if t = 203 then ''UnityEngine.Application'' else if t = 204 then ''Game.Player''
            else if t = 205 then ''Game.Box<T>''
            else if t = 206 then ''Game.Box<System.Object>'' else []),
     type_object = (\<lambda>t. t + 200),
     method_name =
       (\<lambda>m. if m = 301 then ''get_persistentDataPath'' else if m = 302 then ''get_identifier''
            else if m = 303 then ''get_version'' else if m = 304 then ''Update''
            else if m = 305 then ''Render'' else if m = 306 \<or> m = 307 then ''Cast''
            else if m = 308 \<or> m = 318 then ''Get''
            else if m = 309 \<or> m = 319 \<or> m = 329 then ''Map'' else []),
     method_isGeneric = (\<lambda>m. m = 306 \<or> m = 309 \<or> m = 319),
     method_genericParameterCount = (\<lambda>m. if m = 306 then 2 else if m = 309 \<or> m = 319 then 1 else 0),
     method_inflateRaw = (\<lambda>m arguments. if m = 306 then 307 else if m = 319 then 329 else 0),
     method_virtualAddress =
       (\<lambda>m. if m = 304 then 0x7a001000 else if m = 307 then 0x7a0010f0
            else if m = 318 then 0x7a002000 else if m = 329 then 0x7a0020c4
            else if m = 301 then 0x7a003000 else if m = 302 then 0x7a003010
            else if m = 303 then 0x7a003020 else 0),
     method_relativeVirtualAddress =
       (\<lambda>m. if m = 304 then 0x1000 else if m = 307 then 0x10f0
            else if m = 318 then 0x2000 else if m = 329 then 0x20c4
            else if m = 301 then 0x3000 else if m = 302 then 0x3010
            else if m = 303 then 0x3020 else 0),
     method_invoke =
       (\<lambda>m. if m = 301 then Inr (Some ''/data/app'') else if m = 302 then Inr (Some ''com.x.y'')
            else if m = 303 then Inr (Some ''1.0'') else Inl InvokeFailure)\<rparr>"

definition example_host :: Host where
  "example_host = \<lparr>writable = (\<lambda>path. True), clock = 1700000000000\<rparr>"

text \<open>The same process with the third image named as Unity names its generated image.\<close>

definition generated_vm :: VM where
  "generated_vm =
     example_vm\<lparr>imageGetName := (\<lambda>h. if h = 13 then ''__Generated'' else imageGetName example_vm h)\<rparr>"

text \<open>
  The same process with the generic class of \<open>Game\<close> reporting the full type name of the
  class before it, and the same process under the legacy layout.
\<close>

definition twin_vm :: VM where
  "twin_vm =
     example_vm\<lparr>type_name := (\<lambda>t. if t = 205 then ''Game.Player'' else type_name example_vm t)\<rparr>"

definition legacy_vm :: VM where
  "legacy_vm = example_vm\<lparr>isLegacy := True\<rparr>"

text \<open>
  The same process with the second class handle of \<open>Game\<close> null; with both managed getters
  of identifier and version raising; and with an \<open>Application\<close> class that offers
  nothing but \<open>get_persistentDataPath\<close>. A host on which no path can be opened.
\<close>

definition broken_vm :: VM where
  "broken_vm =
     example_vm\<lparr>imageGetClass :=
       (\<lambda>h n. if h = 13 \<and> n = 1 then 0 else imageGetClass example_vm h n)\<rparr>"



definition locked_host :: Host where
  "locked_host = \<lparr>writable = (\<lambda>path. False), clock = 1700000000000\<rparr>"

section \<open>Lemmas\<close>

subsection \<open>String replacement\<close>

lemma js_replace_at_index:
  "js_indexOf pat s = Some i \<Longrightarrow>
     js_replace pat rep s = take i s @ rep @ drop (i + length pat) s"
proof (induction s arbitrary: i)
  case Nil
  then show ?case by (simp split: if_splits)
next
  case (Cons c cs)
  show ?case
  proof (cases "take (length pat) (c # cs) = pat")
    case True
    with Cons.prems show ?thesis by simp
  next
    case False
    with Cons.prems obtain j where j: "js_indexOf pat cs = Some j" "i = Suc j"
      by auto
    from Cons.IH[OF j(1)] False j(2) show ?thesis by simp
  qed
qed

lemma js_replace_no_index:
  "js_indexOf pat s = None \<Longrightarrow> js_replace pat rep s = s"
  by (induction s) (auto split: if_splits)

subsection \<open>The by-name table\<close>

lemma map_of_accessor_set: "map_of (accessor_set k v a) = (map_of a)(k \<mapsto> v)"
  by (induction a) (auto simp: fun_eq_iff)

lemma keys_accessor_set:
  "map fst (accessor_set k v a) = (if k \<in> set (map fst a) then map fst a else map fst a @ [k])"
  by (induction a) force+

lemma accessor_set_fresh: "k \<notin> set (map fst a) \<Longrightarrow> accessor_set k v a = a @ [(k, v)]"
  by (induction a) auto

lemma table_of_Nil [simp]: "table_of f [] a = a"
  by (simp add: table_of_def)

lemma table_of_Cons [simp]: "table_of f (k # ks) a = table_of f ks (accessor_set (f k) k a)"
  by (simp add: table_of_def)

lemma table_of_snoc: "table_of f (ks @ [k]) a = accessor_set (f k) k (table_of f ks a)"
  by (simp add: table_of_def)

lemma map_of_table_of:
  "map_of (table_of f ks a) n =
     (case last_with f ks n of Some k \<Rightarrow> Some k | None \<Rightarrow> map_of a n)"
proof (induction ks rule: rev_induct)
  case Nil
  then show ?case by (simp add: last_with_def)
next
  case (snoc k ks)
  then show ?case by (simp add: table_of_snoc map_of_accessor_set last_with_def)
qed

lemma keys_table_of:
  "map fst (table_of f ks []) = first_occurrences (map f ks)"
  unfolding first_occurrences_def
proof (induction ks rule: rev_induct)
  case Nil
  then show ?case by simp
next
  case (snoc k ks)
  have "set (map fst (table_of f ks [])) = set (map f ks)"
    using snoc by simp
  then show ?case using snoc
    by (auto simp add: table_of_snoc keys_accessor_set)
qed

lemma distinct_keys_table_of: "distinct (map fst (table_of f ks []))"
  by (simp add: keys_table_of first_occurrences_def)

lemma table_of_distinct:
  "distinct (map f ks) \<Longrightarrow> table_of f ks [] = map (\<lambda>k. (f k, k)) ks"
proof (induction ks rule: rev_induct)
  case Nil
  then show ?case by simp
next
  case (snoc k ks)
  then have ih: "table_of f ks [] = map (\<lambda>k. (f k, k)) ks" by simp
  have "f k \<notin> set (map fst (table_of f ks []))"
    using snoc.prems by (auto simp: ih comp_def)
  then show ?case by (simp add: table_of_snoc accessor_set_fresh ih)
qed

lemma table_of_entries:
  "(n, k) \<in> set (table_of f ks []) \<longleftrightarrow> last_with f ks n = Some k"
proof -
  have "(n, k) \<in> set (table_of f ks []) \<longleftrightarrow> map_of (table_of f ks []) n = Some k"
    using distinct_keys_table_of by (metis map_of_eq_Some_iff)
  then show ?thesis by (simp add: map_of_table_of split: option.splits)
qed

lemma length_table_of: "length (table_of f ks []) \<le> length ks"
proof -
  have "length (table_of f ks []) = length (map fst (table_of f ks []))" by simp
  also have "\<dots> = length (remdups (rev (map f ks)))"
    by (simp only: keys_table_of first_occurrences_def length_rev)
  also have "\<dots> \<le> length (rev (map f ks))" by (rule length_remdups_leq)
  finally show ?thesis by simp
qed

lemma collect_ok:
  "\<forall>h \<in> set hs. \<not> isNull h \<Longrightarrow> collect vm hs a = Inr (table_of (class_type_name vm) hs a)"
  by (induction hs arbitrary: a) (auto simp: new_Il2CppClass_def)

lemma collect_null:
  "\<exists>h \<in> set hs. isNull h \<Longrightarrow> collect vm hs a = Inl InvalidHandle"
  by (induction hs arbitrary: a) (auto simp: new_Il2CppClass_def)

subsection \<open>The two loops of the classes getter\<close>

lemma current_loop_collect:
  "current_loop vm h i endi accessor = collect vm (map (imageGetClass vm h) [i..<endi]) accessor"
proof (induction vm h i endi accessor rule: current_loop.induct)
  case (1 vm h i endi accessor)
  show ?case
  proof (cases "i < endi")
    case True
    then have range: "[i..<endi] = i # [i + 1..<endi]" by (simp add: upt_conv_Cons)
    show ?thesis
    proof (cases "new_Il2CppClass (imageGetClass vm h i)")
      case (Inl e)
      with True range show ?thesis by (subst current_loop.simps) simp
    next
      case (Inr klass)
      with True range "1.IH"[OF True Inr] show ?thesis
        by (subst current_loop.simps) simp
    qed
  next
    case False
    then show ?thesis by (subst current_loop.simps) simp
  qed
qed

lemma writeInt_overwrite: "writeInt a j (writeInt a i m) = writeInt a j m"
  by (rule ext) (simp add: writeInt_def Let_def)

lemma legacy_loop_collect:
  "legacy_loop vm i endi g accessor =
     collect vm (map (\<lambda>j. typeGetClassOrElementClass vm (writeInt 0 j g)) [i..endi - 1]) accessor"
proof (induction vm i endi g accessor rule: legacy_loop.induct)
  case (1 vm i endi g accessor)
  show ?case
  proof (cases "i < endi")
    case True
    then have range: "[i..endi - 1] = i # [i + 1..endi - 1]" by (simp add: upto_rec1)
    show ?thesis
    proof (cases "new_Il2CppClass (typeGetClassOrElementClass vm (writeInt 0 i g))")
      case (Inl e)
      with True range show ?thesis by (subst legacy_loop.simps) simp
    next
      case (Inr klass)
      with True range "1.IH"[OF True refl Inr] show ?thesis
        by (subst legacy_loop.simps) (simp add: writeInt_overwrite)
    qed
  next
    case False
    then show ?thesis by (subst legacy_loop.simps) simp
  qed
qed

subsection \<open>The example process, field by field\<close>

lemma example_vm_fields:
  "isLegacy example_vm = False"
  "offsetOfTypeEnum example_vm = 10"
  "pointerSize example_vm = 4"
  "imageGetClassCount example_vm h = (if h = 11 then 2 else if h = 12 then 1 else if h = 13 then 2 else 0)"
  "imageGetClassStart example_vm h = (if h = 11 then 0 else if h = 12 then 2 else if h = 13 then 3 else 0)"
  "imageGetClass example_vm h n =
     (if h = 11 \<and> n < 2 then example_table n
      else if h = 12 \<and> n < 1 then example_table (2 + n)
      else if h = 13 \<and> n < 2 then example_table (3 + n) else 0)"
  "typeGetClassOrElementClass example_vm d =
     (case d 0 of None \<Rightarrow> 0 | Some b \<Rightarrow> example_table (unat b))"
  "imageGetName example_vm h =
     (if h = 11 then ''mscorlib.dll'' else if h = 12 then ''UnityEngine.CoreModule.dll''
      else if h = 13 then ''Game.dll'' else [])"
  "assemblyGetImage example_vm a = (if a = 1 then 11 else if a = 2 then 12 else if a = 3 then 13 else 0)"
  "assemblies example_vm = [(''mscorlib'', 1), (''UnityEngine.CoreModule'', 2), (''Game'', 3)]"
  "corlib example_vm = 11"
  "class_type example_vm k = k + 100"
  "class_isGeneric example_vm k = (k = 105)"
  "class_genericParameterCount example_vm k = (if k = 105 then 1 else 0)"
  "class_inflateRaw example_vm k arguments = (if k = 105 then 106 else 0)"
  "type_object example_vm t = t + 200"
  "method_isGeneric example_vm m = (m = 306 \<or> m = 309 \<or> m = 319)"
  "method_genericParameterCount example_vm m = (if m = 306 then 2 else if m = 309 \<or> m = 319 then 1 else 0)"
  "method_inflateRaw example_vm m arguments = (if m = 306 then 307 else if m = 319 then 329 else 0)"
  by (simp_all add: example_vm_def)

lemma example_vm_tables:
  "class_methods example_vm k =
     (if k = 103 then [(''get_persistentDataPath'', 301), (''get_identifier'', 302),
                       (''get_version'', 303)]
      else if k = 104 then [(''Update'', 304), (''Render'', 305), (''Cast'', 306)]
      else if k = 105 then [(''Get'', 308), (''Map'', 309)]
      else if k = 106 then [(''Get'', 318), (''Map'', 319)] else [])"
  "class_toString example_vm k =
     (if k = 101 then ''class System.Object'' else if k = 102 then ''class System.Type''
      else if k = 103 then ''class UnityEngine.Application''
      else if k = 104 then ''class Game.Player''
      else if k = 105 then ''class Game.Box<T>'' else [])"
  "type_name example_vm t =
     (if t = 201 then ''System.Object'' else if t = 202 then ''System.Type''
      else if t = 203 then ''UnityEngine.Application'' else if t = 204 then ''Game.Player''
      else if t = 205 then ''Game.Box<T>''
      else if t = 206 then ''Game.Box<System.Object>'' else [])"
  "method_name example_vm m =
     (if m = 301 then ''get_persistentDataPath'' else if m = 302 then ''get_identifier''
      else if m = 303 then ''get_version'' else if m = 304 then ''Update''
      else if m = 305 then ''Render'' else if m = 306 \<or> m = 307 then ''Cast''
      else if m = 308 \<or> m = 318 then ''Get''
      else if m = 309 \<or> m = 319 \<or> m = 329 then ''Map'' else [])"
  "method_virtualAddress example_vm m =
     (if m = 304 then 0x7a001000 else if m = 307 then 0x7a0010f0
      else if m = 318 then 0x7a002000 else if m = 329 then 0x7a0020c4
      else if m = 301 then 0x7a003000 else if m = 302 then 0x7a003010
      else if m = 303 then 0x7a003020 else 0)"
  "method_relativeVirtualAddress example_vm m =
     (if m = 304 then 0x1000 else if m = 307 then 0x10f0
      else if m = 318 then 0x2000 else if m = 329 then 0x20c4
      else if m = 301 then 0x3000 else if m = 302 then 0x3010
      else if m = 303 then 0x3020 else 0)"
  "method_invoke example_vm m =
     (if m = 301 then Inr (Some ''/data/app'') else if m = 302 then Inr (Some ''com.x.y'')
      else if m = 303 then Inr (Some ''1.0'') else Inl InvokeFailure)"
  by (simp_all add: example_vm_def)

subsection \<open>Getters on a fresh image object\<close>

lemma new_Il2CppImage_fresh:
  "new_Il2CppImage h = (if isNull h then Inl InvalidHandle else Inr (fresh_image h))"
  by (simp add: new_Il2CppImage_def fresh_image_def)

lemma Image_name_fresh: "fst (Image_name vm (fresh_image h)) = imageGetName vm h"
  by (simp add: Image_name_def fresh_image_def Let_def)

lemma Assembly_name_eq:
  "Assembly_name vm a =
     (if isNull (assemblyGetImage vm a) then Inl InvalidHandle
      else Inr (js_replace ''.dll'' [] (imageGetName vm (assemblyGetImage vm a))))"
  by (simp add: Assembly_name_def Assembly_image_def new_Il2CppImage_fresh Image_name_fresh)
lemma Image_classes_fresh:
  "fst (Image_classes vm (fresh_image h)) = collect vm (image_traversal vm h) []"
proof (cases "isLegacy vm")
  case True
  have "legacy_loop vm (imageGetClassStart vm h)
          (imageGetClassStart vm h + int (imageGetClassCount vm h))
          (writeInt (offsetOfTypeEnum vm) 0x20 (Memory_alloc (pointerSize vm))) [] =
        collect vm (legacy_traversal vm h) []"
    by (simp add: legacy_loop_collect legacy_traversal_def legacy_indices_def descriptor_def)
  with True show ?thesis
    by (simp add: Image_classes_def fresh_image_def Image_classStart_def Image_classCount_def
        Let_def image_traversal_def split: sum.splits)
next
  case False
  have "current_loop vm h 0 (imageGetClassCount vm h) [] = collect vm (current_traversal vm h) []"
    by (simp add: current_loop_collect current_traversal_def)
  with False show ?thesis
    by (simp add: Image_classes_def fresh_image_def Image_classCount_def
        Let_def image_traversal_def split: sum.splits)
qed

lemma Image_classes_cached:
  assumes "fst (Image_classes vm (fresh_image h)) = Inr table"
  shows "Image_classes vm' (snd (Image_classes vm (fresh_image h))) =
           (Inr table, snd (Image_classes vm (fresh_image h)))"
proof -
  have "classes_cache (snd (Image_classes vm (fresh_image h))) = Some table"
    using assms
    by (auto simp add: Image_classes_def fresh_image_def Image_classStart_def Image_classCount_def
        Let_def split: sum.splits if_splits)
  then show ?thesis by (simp add: Image_classes_def)
qed

lemma table_by_keys:
  "distinct (map fst xs) \<Longrightarrow> xs = map (\<lambda>n. (n, the (map_of xs n))) (map fst xs)"
proof (induction xs)
  case Nil
  then show ?case by simp
next
  case (Cons x xs)
  obtain n k where x: "x = (n, k)" by (cases x)
  from Cons.prems x have notin: "n \<notin> set (map fst xs)" and d: "distinct (map fst xs)" by auto
  have "map (\<lambda>m. (m, the (map_of (x # xs) m))) (map fst xs) =
        map (\<lambda>m. (m, the (map_of xs m))) (map fst xs)"
    using notin x by (intro map_cong) auto
  with Cons.IH[OF d] x show ?case by simp
qed

lemma table_of_explicit:
  "table_of f ks [] = map (\<lambda>n. (n, the (last_with f ks n))) (first_occurrences (map f ks))"
proof -
  let ?t = "table_of f ks []"
  have "?t = map (\<lambda>n. (n, the (map_of ?t n))) (map fst ?t)"
    by (rule table_by_keys) (rule distinct_keys_table_of)
  also have "\<dots> = map (\<lambda>n. (n, the (last_with f ks n))) (map fst ?t)"
  proof (intro map_cong refl)
    fix n assume "n \<in> set (map fst ?t)"
    then obtain k where "(n, k) \<in> set ?t" by auto
    then have "last_with f ks n = Some k" by (simp add: table_of_entries)
    then show "(n, the (map_of ?t n)) = (n, the (last_with f ks n))"
      by (simp add: map_of_table_of)
  qed
  finally show ?thesis by (simp add: keys_table_of)
qed

lemma last_with_later:
  "last_with f ks n = Some k \<Longrightarrow> j < length ks \<Longrightarrow> f (ks ! j) = n \<Longrightarrow> k \<in> set (drop j ks)"
proof (induction ks rule: rev_induct)
  case Nil
  then show ?case by simp
next
  case (snoc x ks)
  show ?case
  proof (cases "f x = n")
    case True
    with snoc.prems(1) have "k = x" by (simp add: last_with_def)
    with snoc.prems(2) show ?thesis by simp
  next
    case False
    with snoc.prems(1) have lw: "last_with f ks n = Some k" by (simp add: last_with_def)
    from False snoc.prems(2,3) have j: "j < length ks"
      by (cases "j = length ks") auto
    with snoc.prems(3) have "f (ks ! j) = n" by (simp add: nth_append)
    from snoc.IH[OF lw j this] show ?thesis by simp
  qed
qed

lemma shadowed_absent:
  assumes "i < j" "j < length ks" "f (ks ! i) = f (ks ! j)" "ks ! i \<notin> set (drop (Suc i) ks)"
  shows "ks ! i \<notin> set (accessor_values (table_of f ks []))"
proof
  assume "ks ! i \<in> set (accessor_values (table_of f ks []))"
  then obtain n where "(n, ks ! i) \<in> set (table_of f ks [])"
    by (auto simp: accessor_values_def)
  then have lw: "last_with f ks n = Some (ks ! i)" by (simp add: table_of_entries)
  then have "f (ks ! i) = n"
    by (auto simp: last_with_def find_Some_iff)
  with assms(3) have "f (ks ! j) = n" by simp
  from last_with_later[OF lw assms(2) this] have "ks ! i \<in> set (drop j ks)" .
  moreover have "set (drop j ks) \<subseteq> set (drop (Suc i) ks)"
    using assms(1) by (metis Suc_leI set_drop_subset_set_drop)
  ultimately show False using assms(4) by auto
qed

subsection \<open>Reading back a stored integer\<close>

lemma bytes_cat:
  fixes w :: "32 word"
  shows "(word_cat (ucast (drop_bit 24 w) :: 8 word)
           (word_cat (ucast (drop_bit 16 w) :: 8 word)
              (word_cat (ucast (drop_bit 8 w) :: 8 word) (ucast w :: 8 word) :: 16 word)
            :: 24 word) :: 32 word) = w"
  by (rule bit_word_eqI) (auto simp add: bit_simps)

lemma readInt_writeInt:
  "readInt a (writeInt a v m) = Some (sint (word_of_int v :: 32 word))"
  by (simp add: readInt_def writeInt_def Let_def bytes_cat)

lemma readInt_writeInt_range:
  "- (2 ^ 31) \<le> v \<Longrightarrow> v < 2 ^ 31 \<Longrightarrow> readInt a (writeInt a v m) = Some v"
  by (simp add: readInt_writeInt sint_sbintrunc' signed_take_bit_int_eq_self)

lemma readInt_writeInt_other:
  "b + 4 \<le> a \<Longrightarrow> readInt a (writeInt b v m) = readInt a m"
  by (simp add: readInt_def writeInt_def Let_def)

subsection \<open>The last class with a name\<close>

lemma find_app:
  "find P (xs @ ys) = (case find P xs of None \<Rightarrow> find P ys | Some x \<Rightarrow> Some x)"
  by (induction xs) auto

lemma last_with_split:
  "f k \<notin> f ` set ys \<Longrightarrow> last_with f (xs @ k # ys) (f k) = Some k"
proof -
  assume "f k \<notin> f ` set ys"
  then have "\<not> (\<exists>x. x \<in> set (rev ys) \<and> f x = f k)"
    by (metis image_eqI set_rev)
  then have "find (\<lambda>k'. f k' = f k) (rev ys) = None"
    by (simp add: find_None_iff)
  then show ?thesis
    by (simp add: last_with_def find_app)
qed

lemma image_traversal_example:
  "image_traversal example_vm 13 = [104, 105]"
  "image_traversal twin_vm 13 = [104, 105]"
  by (simp_all add: image_traversal_def current_traversal_def twin_vm_def example_vm_fields
      example_table_def upt_conv_Cons)
subsection \<open>Runs and their chunks\<close>

lemma chunks_append: "chunks (xs @ ys) = chunks xs @ chunks ys"
  by (induction xs rule: chunks.induct) auto

lemma notices_append: "notices (xs @ ys) = notices xs @ notices ys"
  by (induction xs rule: notices.induct) auto

lemma classes_klass_loop_map:
  "classes_klass_loop vm ks = map (\<lambda>k. Yield (class_toString vm k)) ks"
  by (induction ks) auto

lemma chunks_classes_klass_loop:
  "chunks (classes_klass_loop vm ks) = map (class_toString vm) ks"
  by (induction ks) auto

lemma Assembly_image_eq:
  "Assembly_image vm a =
     (if isNull (assemblyGetImage vm a) then Inl InvalidHandle
      else Inr (fresh_image (assemblyGetImage vm a)))"
  by (simp add: Assembly_image_def new_Il2CppImage_fresh)

lemma classes_assembly_eq:
  "classes_assembly vm a =
     (if isNull (assemblyGetImage vm a) then ([], Some InvalidHandle)
      else (case collect vm (image_traversal vm (assemblyGetImage vm a)) [] of
              Inl e \<Rightarrow>
                ([Inform (''Dumping '' @ [CHR 0x1B] @ ''[1m'' @
                          js_replace ''.dll'' [] (imageGetName vm (assemblyGetImage vm a)) @
                          [CHR 0x1B] @ ''[0m...'')], Some e)
            | Inr classes \<Rightarrow>
                (Inform (''Dumping '' @ [CHR 0x1B] @ ''[1m'' @
                         js_replace ''.dll'' [] (imageGetName vm (assemblyGetImage vm a)) @
                         [CHR 0x1B] @ ''[0m...'')
                 # classes_klass_loop vm (accessor_values classes), None)))"
  by (simp add: classes_assembly_def Assembly_name_eq Assembly_image_eq Image_classes_fresh
      Let_def split: sum.splits)

lemma methods_assembly_eq:
  "methods_assembly vm ta a =
     (if isNull (assemblyGetImage vm a) then ([], Some InvalidHandle)
      else (case collect vm (image_traversal vm (assemblyGetImage vm a)) [] of
              Inl e \<Rightarrow>
                ([Inform (''Dumping methods from '' @ [CHR 0x1B] @ ''[1m'' @
                          js_replace ''.dll'' [] (imageGetName vm (assemblyGetImage vm a)) @
                          [CHR 0x1B] @ ''[0m...'')], Some e)
            | Inr classes \<Rightarrow>
                (Inform (''Dumping methods from '' @ [CHR 0x1B] @ ''[1m'' @
                         js_replace ''.dll'' [] (imageGetName vm (assemblyGetImage vm a)) @
                         [CHR 0x1B] @ ''[0m...'')
                 # methods_klass_loop vm ta (accessor_values classes), None)))"
  by (simp add: methods_assembly_def Assembly_name_eq Assembly_image_eq Image_classes_fresh
      Let_def split: sum.splits)

lemma methods_klass_eq:
  "methods_klass vm ta klass0 =
     (if class_isGeneric vm klass0
      then [InflateClass klass0 (ta (class_genericParameterCount vm klass0))] else []) @
     methods_method_loop vm ta (traversed_klass vm ta klass0)
       (accessor_values (class_methods vm (traversed_klass vm ta klass0)))"
  by (simp add: methods_klass_def traversed_klass_def Let_def)

lemma methods_method_eq:
  "methods_method vm ta klass method0 =
     (if method_isGeneric vm method0 \<and> \<not> class_isGeneric vm klass
      then [InflateMethod method0 (ta (method_genericParameterCount vm method0))] else []) @
     (if \<not> isNull (method_virtualAddress vm (reached_method vm ta klass method0))
      then [Yield (method_line vm klass (reached_method vm ta klass method0))] else [])"
  by (simp add: methods_method_def reached_method_def method_line_def Let_def)

lemma set_methods_method_loop:
  "set (methods_method_loop vm ta klass ms) = (\<Union>m \<in> set ms. set (methods_method vm ta klass m))"
  by (induction ms) auto

lemma set_methods_klass_loop:
  "set (methods_klass_loop vm ta ks) = (\<Union>k \<in> set ks. set (methods_klass vm ta k))"
  by (induction ks) auto

lemma assemblies_loop_all:
  assumes "\<And>a. a \<in> set as \<Longrightarrow> \<forall>e \<in> set (fst (body a)). P e"
  shows "\<forall>e \<in> set (fst (assemblies_loop body as)). P e"
  using assms
proof (induction as)
  case Nil
  then show ?case by simp
next
  case (Cons a as)
  have here: "\<forall>e \<in> set (fst (body a)). P e" by (rule Cons.prems) simp
  have rest: "\<forall>e \<in> set (fst (assemblies_loop body as)). P e"
    by (rule Cons.IH) (rule Cons.prems, simp)
  show ?case
  proof (cases "body a")
    case (Pair es r)
    show ?thesis
    proof (cases r)
      case None
      with Pair here rest show ?thesis
        by (cases "assemblies_loop body as") auto
    next
      case (Some e)
      with Pair here show ?thesis by auto
    qed
  qed
qed

lemma write_loop_pending:
  "write_loop cs f = f\<lparr>pending := pending f @ concat cs\<rparr>"
  by (induction cs arbitrary: f) (auto simp: File_write_def)
subsection \<open>The tables of the example process\<close>

lemma example_names:
  "class_type_name example_vm 101 = ''System.Object''"
  "class_type_name example_vm 102 = ''System.Type''"
  "class_type_name example_vm 103 = ''UnityEngine.Application''"
  "class_type_name example_vm 104 = ''Game.Player''"
  "class_type_name example_vm 105 = ''Game.Box<T>''"
  "class_type_name example_vm 106 = ''Game.Box<System.Object>''"
  "class_type_name twin_vm 104 = ''Game.Player''"
  "class_type_name twin_vm 105 = ''Game.Player''"
  by (simp_all add: class_type_name_def twin_vm_def example_vm_fields example_vm_tables)

lemma example_traversals:
  "image_traversal example_vm 11 = [101, 102]"
  "image_traversal example_vm 12 = [103]"
  by (simp_all add: image_traversal_def current_traversal_def example_vm_fields
      example_table_def upt_conv_Cons)

lemma example_classes:
  "fst (Image_classes example_vm (fresh_image 11)) =
     Inr [(''System.Object'', 101), (''System.Type'', 102)]"
  "fst (Image_classes example_vm (fresh_image 12)) = Inr [(''UnityEngine.Application'', 103)]"
  "fst (Image_classes example_vm (fresh_image 13)) =
     Inr [(''Game.Player'', 104), (''Game.Box<T>'', 105)]"
  "fst (Image_classes twin_vm (fresh_image 13)) = Inr [(''Game.Player'', 105)]"
  by (simp_all add: Image_classes_fresh image_traversal_example example_traversals
      new_Il2CppClass_def isNull_def example_names)

subsection \<open>Rendering numbers\<close>

lemma hex_fixed_numeral:
  "hex_fixed (numeral k) v = hex_fixed (pred_numeral k) (v div 16) @ [hex_char (v mod 16)]"
  unfolding numeral_eq_Suc[of k] by (rule hex_fixed.simps)


lemma js_number_0: "js_number 0 = ''0''"
  by (simp add: js_number.simps digit_char_def)


subsection \<open>The address token and the method loop\<close>

lemma length_hex_fixed: "length (hex_fixed n v) = n"
  by (induction n arbitrary: v) auto

lemma hex_char_is_hex_digit: "d < 16 \<Longrightarrow> is_hex_digit (hex_char d)"
  unfolding hex_char_def is_hex_digit_def by (rule nth_mem) simp

lemma hex_fixed_digits: "\<forall>c \<in> set (hex_fixed n v). is_hex_digit c"
  by (induction n arbitrary: v) (auto simp: hex_char_is_hex_digit)

lemma chunks_methods_method_loop:
  "chunks (methods_method_loop vm ta klass ms) =
     map (method_line vm klass)
       (filter (\<lambda>m. \<not> isNull (method_virtualAddress vm m))
          (map (reached_method vm ta klass) ms))"
  by (induction ms) (auto simp: chunks_append methods_method_eq)

subsection \<open>Resolver requests of the method loop\<close>



subsection \<open>The runs of the example process\<close>

lemma example_collects:
  "collect example_vm (image_traversal example_vm 11) [] =
     Inr [(''System.Object'', 101), (''System.Type'', 102)]"
  "collect example_vm (image_traversal example_vm 12) [] = Inr [(''UnityEngine.Application'', 103)]"
  "collect example_vm (image_traversal example_vm 13) [] =
     Inr [(''Game.Player'', 104), (''Game.Box<T>'', 105)]"
  using example_classes(1-3) by (simp_all add: Image_classes_fresh)

lemma example_methods_klass:
  "methods_klass example_vm (getTypeArray (Some 102) 401) 101 = []"
  "methods_klass example_vm (getTypeArray (Some 102) 401) 102 = []"
  "methods_klass example_vm (getTypeArray (Some 102) 401) 103 =
     [Yield (''0x00003000 UnityEngine.Application.get_persistentDataPath'' @ [CHR 0x0A]),
      Yield (''0x00003010 UnityEngine.Application.get_identifier'' @ [CHR 0x0A]),
      Yield (''0x00003020 UnityEngine.Application.get_version'' @ [CHR 0x0A])]"
  "methods_klass example_vm (getTypeArray (Some 102) 401) 104 =
     [Yield (''0x00001000 Game.Player.Update'' @ [CHR 0x0A]),
      InflateMethod 306 (getTypeArray (Some 102) 401 2),
      Yield (''0x000010f0 Game.Player.Cast'' @ [CHR 0x0A])]"
  "methods_klass example_vm (getTypeArray (Some 102) 401) 105 =
     [InflateClass 105 (getTypeArray (Some 102) 401 1),
      Yield (''0x00002000 Game.Box<System.Object>.Get'' @ [CHR 0x0A]),
      InflateMethod 319 (getTypeArray (Some 102) 401 1),
      Yield (''0x000020c4 Game.Box<System.Object>.Map'' @ [CHR 0x0A])]"
  by (simp_all add: methods_klass_eq methods_method_eq traversed_klass_def reached_method_def
      method_line_def accessor_values_def isNull_def example_vm_fields example_vm_tables
      example_names formatNativePointer_def hex_fixed_numeral hex_char_def)

lemma example_methods_run:
  "methods_generator (Some 102) 401 example_vm =
     ([Inform (''Dumping methods from '' @ [CHR 0x1B] @ ''[1mmscorlib'' @ [CHR 0x1B] @ ''[0m...''),
       Inform (''Dumping methods from '' @ [CHR 0x1B] @ ''[1mUnityEngine.CoreModule'' @ [CHR 0x1B] @ ''[0m...''),
       Yield (''0x00003000 UnityEngine.Application.get_persistentDataPath'' @ [CHR 0x0A]),
       Yield (''0x00003010 UnityEngine.Application.get_identifier'' @ [CHR 0x0A]),
       Yield (''0x00003020 UnityEngine.Application.get_version'' @ [CHR 0x0A]),
       Inform (''Dumping methods from '' @ [CHR 0x1B] @ ''[1mGame'' @ [CHR 0x1B] @ ''[0m...''),
       Yield (''0x00001000 Game.Player.Update'' @ [CHR 0x0A]),
       InflateMethod 306 (getTypeArray (Some 102) 401 2),
       Yield (''0x000010f0 Game.Player.Cast'' @ [CHR 0x0A]),
       InflateClass 105 (getTypeArray (Some 102) 401 1),
       Yield (''0x00002000 Game.Box<System.Object>.Get'' @ [CHR 0x0A]),
       InflateMethod 319 (getTypeArray (Some 102) 401 1),
       Yield (''0x000020c4 Game.Box<System.Object>.Map'' @ [CHR 0x0A])], None)"
  by (simp add: methods_generator_def methods_assembly_eq accessor_values_def isNull_def
      example_vm_fields example_collects example_methods_klass)

lemma example_classes_run:
  "classes_generator example_vm =
     ([Inform (''Dumping '' @ [CHR 0x1B] @ ''[1mmscorlib'' @ [CHR 0x1B] @ ''[0m...''),
       Yield ''class System.Object'', Yield ''class System.Type'',
       Inform (''Dumping '' @ [CHR 0x1B] @ ''[1mUnityEngine.CoreModule'' @ [CHR 0x1B] @ ''[0m...''),
       Yield ''class UnityEngine.Application'',
       Inform (''Dumping '' @ [CHR 0x1B] @ ''[1mGame'' @ [CHR 0x1B] @ ''[0m...''),
       Yield ''class Game.Player'', Yield ''class Game.Box<T>''], None)"
  by (simp add: classes_generator_def classes_assembly_eq accessor_values_def isNull_def
      example_vm_fields example_collects example_vm_tables)

lemma example_Dumper_methods:
  "Dumper_methods example_vm new_Dumper =
     Inr (new_Dumper\<lparr>p_generator := Some (methods_generator (Some 102) 401),
                     p_extension := Some ''ms''\<rparr>)"
  by (simp add: Dumper_methods_def new_Il2CppImage_fresh isNull_def example_vm_fields
      example_classes accessor_get_def)

subsection \<open>The arguments of resolver requests\<close>

lemma getTypeArray_elements:
  "elements (getTypeArray t root n) = replicate n root"
  by (simp add: getTypeArray_def Array_from_def)

lemma placeholder_methods_method:
  "\<forall>e \<in> set (methods_method vm (getTypeArray t root) klass m). placeholder_request vm root e"
  by (auto simp: methods_method_eq placeholder_request_def getTypeArray_elements list_all_iff)

lemma placeholder_methods_klass:
  "\<forall>e \<in> set (methods_klass vm (getTypeArray t root) k). placeholder_request vm root e"
  using placeholder_methods_method[of vm t root]
  by (auto simp: methods_klass_eq set_methods_method_loop placeholder_request_def
      getTypeArray_elements list_all_iff)

lemma placeholder_methods_assembly:
  "\<forall>e \<in> set (fst (methods_assembly vm (getTypeArray t root) a)). placeholder_request vm root e"
  using placeholder_methods_klass[of vm t root]
  by (auto simp: methods_assembly_eq set_methods_klass_loop placeholder_request_def
      split: sum.splits)

lemma placeholder_methods_generator:
  "\<forall>e \<in> set (fst (methods_generator t root vm)). placeholder_request vm root e"
  unfolding methods_generator_def
  by (rule assemblies_loop_all) (rule placeholder_methods_assembly)

subsection \<open>Runs that fail, and build unfolded\<close>

lemma broken_collects:
  "collect broken_vm (image_traversal broken_vm 11) [] =
     Inr [(''System.Object'', 101), (''System.Type'', 102)]"
  "collect broken_vm (image_traversal broken_vm 12) [] = Inr [(''UnityEngine.Application'', 103)]"
  "collect broken_vm (image_traversal broken_vm 13) [] = Inl InvalidHandle"
  by (simp_all add: image_traversal_def current_traversal_def broken_vm_def example_vm_fields
      example_vm_tables example_table_def upt_conv_Cons new_Il2CppClass_def isNull_def
      class_type_name_def)

lemma broken_classes_run:
  "classes_generator broken_vm =
     ([Inform (''Dumping '' @ [CHR 0x1B] @ ''[1mmscorlib'' @ [CHR 0x1B] @ ''[0m...''),
       Yield ''class System.Object'', Yield ''class System.Type'',
       Inform (''Dumping '' @ [CHR 0x1B] @ ''[1mUnityEngine.CoreModule'' @ [CHR 0x1B] @ ''[0m...''),
       Yield ''class UnityEngine.Application'',
       Inform (''Dumping '' @ [CHR 0x1B] @ ''[1mGame'' @ [CHR 0x1B] @ ''[0m...'')],
      Some InvalidHandle)"
proof -
  have f: "assemblies broken_vm = assemblies example_vm"
    "assemblyGetImage broken_vm = assemblyGetImage example_vm"
    "imageGetName broken_vm = imageGetName example_vm"
    "class_toString broken_vm = class_toString example_vm"
    by (simp_all add: broken_vm_def)
  show ?thesis
    by (simp add: classes_generator_def classes_assembly_eq accessor_values_def isNull_def
        f example_vm_fields broken_collects example_vm_tables)
qed

lemma explicit_destination:
  "destinationPath vm host
     (Dumper_classes (Dumper_fileName n (Dumper_directoryPath d new_Dumper))) =
   Inr (d @ ''/'' @ n @ ''.cs'')"
  by (simp add: destinationPath_def Dumper_classes_def Dumper_fileName_def
      Dumper_directoryPath_def new_Dumper_def js_template_def)

lemma build_unfolded:
  assumes "destinationPath vm host this = Inr path" and "p_generator this = Some generator"
  shows "build vm host this =
     (if \<not> writable host path then \<lparr>out_file = None, console = [], thrown = Some IOFailure\<rparr>
      else case snd (generator vm) of
        Some e \<Rightarrow>
          \<lparr>out_file = Some \<lparr>file_path = path, on_disk = [],
                             pending = concat (chunks (fst (generator vm))), is_open = True\<rparr>,
           console = map (Pair Info) (notices (fst (generator vm))),
           thrown = Some e\<rparr>
      | None \<Rightarrow>
          \<lparr>out_file = Some \<lparr>file_path = path,
                             on_disk = concat (chunks (fst (generator vm))),
                             pending = [], is_open = False\<rparr>,
           console = map (Pair Info) (notices (fst (generator vm))) @
                     [(Ok, ''Dump saved to '' @ path @ ''.'')],
           thrown = None\<rparr>)"
  using assms
  by (cases "generator vm")
     (auto simp: build_def File_new_def write_loop_pending File_close_def File_flush_def
       split: option.splits)

subsection \<open>The default destination\<close>









subsection \<open>Getters on an image object that was read before\<close>

lemma cache_consistent_fresh: "cache_consistent vm (fresh_image h)"
  by (simp add: cache_consistent_def fresh_image_def)

lemma Image_classCount_consistent:
  "cache_consistent vm img \<Longrightarrow>
     fst (Image_classCount vm img) = imageGetClassCount vm (handle img) \<and>
     cache_consistent vm (snd (Image_classCount vm img)) \<and>
     handle (snd (Image_classCount vm img)) = handle img \<and>
     classes_cache (snd (Image_classCount vm img)) = classes_cache img"
  by (auto simp: cache_consistent_def Image_classCount_def Let_def split: option.splits)

lemma Image_classStart_consistent:
  "cache_consistent vm img \<Longrightarrow>
     fst (Image_classStart vm img) = imageGetClassStart vm (handle img) \<and>
     cache_consistent vm (snd (Image_classStart vm img)) \<and>
     handle (snd (Image_classStart vm img)) = handle img \<and>
     classes_cache (snd (Image_classStart vm img)) = classes_cache img"
  by (auto simp: cache_consistent_def Image_classStart_def Let_def split: option.splits)

lemma Image_name_consistent:
  "cache_consistent vm img \<Longrightarrow>
     fst (Image_name vm img) = imageGetName vm (handle img) \<and>
     cache_consistent vm (snd (Image_name vm img)) \<and>
     handle (snd (Image_name vm img)) = handle img"
  by (auto simp: cache_consistent_def Image_name_def Let_def split: option.splits)

lemma cache_consistent_store:
  "cache_consistent vm img \<Longrightarrow> collect vm (image_traversal vm (handle img)) [] = Inr a
     \<Longrightarrow> cache_consistent vm (img\<lparr>classes_cache := Some a\<rparr>)"
  by (auto simp: cache_consistent_def split: option.splits)

lemma Image_classes_consistent:
  assumes "cache_consistent vm img"
  shows "fst (Image_classes vm img) = collect vm (image_traversal vm (handle img)) [] \<and>
         cache_consistent vm (snd (Image_classes vm img)) \<and>
         handle (snd (Image_classes vm img)) = handle img"
proof (cases "classes_cache img")
  case (Some a)
  with assms show ?thesis
    by (simp add: Image_classes_def cache_consistent_def)
next
  case None
  show ?thesis
  proof (cases "isLegacy vm")
    case True
    obtain s img1 where s: "Image_classStart vm img = (s, img1)" by (cases "Image_classStart vm img")
    obtain c img2 where c: "Image_classCount vm img1 = (c, img2)" by (cases "Image_classCount vm img1")
    from Image_classStart_consistent[OF assms] s
    have s1: "s = imageGetClassStart vm (handle img)" "cache_consistent vm img1"
      "handle img1 = handle img" "classes_cache img1 = classes_cache img" by simp_all
    from Image_classCount_consistent[OF s1(2)] c s1(3,4)
    have c1: "c = imageGetClassCount vm (handle img)" "cache_consistent vm img2"
      "handle img2 = handle img" "classes_cache img2 = classes_cache img" by simp_all
    have loop: "legacy_loop vm s (s + int c)
        (writeInt (offsetOfTypeEnum vm) 0x20 (Memory_alloc (pointerSize vm))) [] =
        collect vm (image_traversal vm (handle img)) []"
      using True
      by (simp add: legacy_loop_collect image_traversal_def legacy_traversal_def
          legacy_indices_def descriptor_def s1(1) c1(1))
    show ?thesis
    proof (cases "collect vm (image_traversal vm (handle img)) []")
      case (Inl e)
      with None True s c loop c1 show ?thesis
        by (simp add: Image_classes_def)
    next
      case (Inr a)
      with None True s c loop c1 cache_consistent_store[of vm img2 a] show ?thesis
        by (simp add: Image_classes_def)
    qed
  next
    case False
    obtain c img1 where c: "Image_classCount vm img = (c, img1)" by (cases "Image_classCount vm img")
    from Image_classCount_consistent[OF assms] c
    have c1: "c = imageGetClassCount vm (handle img)" "cache_consistent vm img1"
      "handle img1 = handle img" "classes_cache img1 = classes_cache img" by simp_all
    have loop: "current_loop vm (handle img) 0 c [] =
        collect vm (image_traversal vm (handle img)) []"
      using False
      by (simp add: current_loop_collect image_traversal_def current_traversal_def c1(1))
    show ?thesis
    proof (cases "collect vm (image_traversal vm (handle img)) []")
      case (Inl e)
      with None False c loop c1 show ?thesis
        by (simp add: Image_classes_def)
    next
      case (Inr a)
      with None False c loop c1 cache_consistent_store[of vm img1 a] show ?thesis
        by (simp add: Image_classes_def)
    qed
  qed
qed

lemma Image_classes_any_object:
  "cache_consistent vm img \<Longrightarrow>
     fst (Image_classes vm img) = fst (Image_classes vm (fresh_image (handle img)))"
  by (simp add: Image_classes_consistent Image_classes_fresh)

subsection \<open>The chunks of a whole dump\<close>

lemma fst_assemblies_loop:
  "fst (assemblies_loop body as) = concat (map (\<lambda>a. fst (body a)) (entered body as))"
proof (induction as)
  case Nil
  then show ?case by simp
next
  case (Cons a as)
  obtain es r where b: "body a = (es, r)" by (cases "body a")
  obtain es' r' where l: "assemblies_loop body as = (es', r')"
    by (cases "assemblies_loop body as")
  from Cons b l show ?case by (cases r) auto
qed

lemma chunks_concat: "chunks (concat xss) = concat (map chunks xss)"
  by (induction xss) (auto simp: chunks_append)

lemma chunks_assemblies_loop:
  "chunks (fst (assemblies_loop body as)) =
     concat (map (\<lambda>a. chunks (fst (body a))) (entered body as))"
  by (simp add: fst_assemblies_loop chunks_concat comp_def)

lemma dumped_classes_eq:
  "dumped_classes vm a =
     (if isNull (assemblyGetImage vm a) then []
      else (case collect vm (image_traversal vm (assemblyGetImage vm a)) [] of
              Inl e \<Rightarrow> [] | Inr classes \<Rightarrow> accessor_values classes))"
  by (simp add: dumped_classes_def Assembly_image_eq Image_classes_fresh)

lemma chunks_methods_klass:
  "chunks (methods_klass vm ta klass0) = class_lines vm ta klass0"
  by (simp add: methods_klass_eq chunks_append chunks_methods_method_loop class_lines_def
      method_line_def[abs_def])

lemma chunks_methods_klass_loop:
  "chunks (methods_klass_loop vm ta ks) = concat (map (class_lines vm ta) ks)"
  by (induction ks) (auto simp: chunks_append chunks_methods_klass)

lemma chunks_methods_assembly:
  "chunks (fst (methods_assembly vm ta a)) =
     concat (map (class_lines vm ta) (dumped_classes vm a))"
  by (simp add: methods_assembly_eq dumped_classes_eq chunks_methods_klass_loop
      split: sum.splits)

lemma chunks_classes_assembly:
  "chunks (fst (classes_assembly vm a)) = map (class_toString vm) (dumped_classes vm a)"
  by (simp add: classes_assembly_eq dumped_classes_eq chunks_classes_klass_loop
      split: sum.splits)

lemma chunks_methods_generator:
  "chunks (fst (methods_generator t root vm)) =
     concat (map (\<lambda>a. concat (map (class_lines vm (getTypeArray t root)) (dumped_classes vm a)))
               (entered (methods_assembly vm (getTypeArray t root))
                  (accessor_values (assemblies vm))))"
  by (simp add: methods_generator_def chunks_assemblies_loop chunks_methods_assembly)

lemma chunks_classes_generator:
  "chunks (fst (classes_generator vm)) =
     concat (map (\<lambda>a. map (class_toString vm) (dumped_classes vm a))
               (entered (classes_assembly vm) (accessor_values (assemblies vm))))"
  by (simp add: classes_generator_def chunks_assemblies_loop chunks_classes_assembly)

lemma Dumper_methods_generator:
  assumes "Dumper_methods vm this = Inr dumper"
  shows "\<exists>t root. p_generator dumper = Some (methods_generator t root)"
proof -
  from assms obtain classes klass where
    "dumper = this\<lparr>p_generator :=
            Some (methods_generator (accessor_get classes ''System.Type'')
                    (type_object vm (class_type vm klass))),
          p_extension := Some ''ms''\<rparr>"
    by (auto simp: Dumper_methods_def Let_def split: sum.splits option.splits)
  then have "p_generator dumper =
      Some (methods_generator (accessor_get classes ''System.Type'')
              (type_object vm (class_type vm klass)))"
    by simp
  then show ?thesis by (intro exI)
qed

lemma example_dumped_classes:
  "dumped_classes example_vm 1 = [101, 102]"
  "dumped_classes example_vm 2 = [103]"
  "dumped_classes example_vm 3 = [104, 105]"
  by (simp_all add: dumped_classes_eq isNull_def example_vm_fields example_collects
      accessor_values_def)

lemma example_entered:
  "entered (methods_assembly example_vm ta) (accessor_values (assemblies example_vm)) = [1, 2, 3]"
  by (simp add: methods_assembly_eq isNull_def example_vm_fields example_collects
      accessor_values_def)

lemma example_class_lines:
  "class_lines example_vm (getTypeArray (Some 102) 401) 101 = []"
  "class_lines example_vm (getTypeArray (Some 102) 401) 102 = []"
  "class_lines example_vm (getTypeArray (Some 102) 401) 103 =
     [''0x00003000 UnityEngine.Application.get_persistentDataPath'' @ [CHR 0x0A],
      ''0x00003010 UnityEngine.Application.get_identifier'' @ [CHR 0x0A],
      ''0x00003020 UnityEngine.Application.get_version'' @ [CHR 0x0A]]"
  "class_lines example_vm (getTypeArray (Some 102) 401) 104 =
     [''0x00001000 Game.Player.Update'' @ [CHR 0x0A],
      ''0x000010f0 Game.Player.Cast'' @ [CHR 0x0A]]"
  "class_lines example_vm (getTypeArray (Some 102) 401) 105 =
     [''0x00002000 Game.Box<System.Object>.Get'' @ [CHR 0x0A],
      ''0x000020c4 Game.Box<System.Object>.Map'' @ [CHR 0x0A]]"
  by (simp_all add: class_lines_def traversed_klass_def reached_method_def
      accessor_values_def isNull_def example_vm_fields example_vm_tables
      example_names formatNativePointer_def hex_fixed_numeral hex_char_def)

subsection \<open>The variant with two classes of one name\<close>

lemma twin_fields:
  "assemblies twin_vm = assemblies example_vm"
  "assemblyGetImage twin_vm = assemblyGetImage example_vm"
  "pointerSize twin_vm = pointerSize example_vm"
  "class_type twin_vm = class_type example_vm"
  "class_isGeneric twin_vm = class_isGeneric example_vm"
  "class_genericParameterCount twin_vm = class_genericParameterCount example_vm"
  "class_inflateRaw twin_vm = class_inflateRaw example_vm"
  "class_methods twin_vm = class_methods example_vm"
  "class_toString twin_vm = class_toString example_vm"
  "type_name twin_vm t = (if t = 205 then ''Game.Player'' else type_name example_vm t)"
  "method_name twin_vm = method_name example_vm"
  "method_isGeneric twin_vm = method_isGeneric example_vm"
  "method_genericParameterCount twin_vm = method_genericParameterCount example_vm"
  "method_inflateRaw twin_vm = method_inflateRaw example_vm"
  "method_virtualAddress twin_vm = method_virtualAddress example_vm"
  "method_relativeVirtualAddress twin_vm = method_relativeVirtualAddress example_vm"
  by (simp_all add: twin_vm_def)

lemma twin_traversals:
  "image_traversal twin_vm 11 = [101, 102]"
  "image_traversal twin_vm 12 = [103]"
  by (simp_all add: image_traversal_def current_traversal_def twin_vm_def example_vm_fields
      example_table_def upt_conv_Cons)

lemma twin_names:
  "class_type_name twin_vm 101 = ''System.Object''"
  "class_type_name twin_vm 102 = ''System.Type''"
  "class_type_name twin_vm 103 = ''UnityEngine.Application''"
  "class_type_name twin_vm 106 = ''Game.Box<System.Object>''"
  by (simp_all add: class_type_name_def twin_fields example_vm_fields example_vm_tables)

lemma twin_collects:
  "collect twin_vm (image_traversal twin_vm 11) [] =
     Inr [(''System.Object'', 101), (''System.Type'', 102)]"
  "collect twin_vm (image_traversal twin_vm 12) [] = Inr [(''UnityEngine.Application'', 103)]"
  "collect twin_vm (image_traversal twin_vm 13) [] = Inr [(''Game.Player'', 105)]"
  by (simp_all add: twin_traversals image_traversal_example new_Il2CppClass_def isNull_def
      twin_names example_names)

lemma twin_dumped_classes:
  "dumped_classes twin_vm 1 = [101, 102]"
  "dumped_classes twin_vm 2 = [103]"
  "dumped_classes twin_vm 3 = [105]"
  by (simp_all add: dumped_classes_eq isNull_def twin_fields example_vm_fields twin_collects
      accessor_values_def)

lemma twin_entered:
  "entered (methods_assembly twin_vm ta) (accessor_values (assemblies twin_vm)) = [1, 2, 3]"
  "entered (classes_assembly twin_vm) (accessor_values (assemblies twin_vm)) = [1, 2, 3]"
  by (simp_all add: methods_assembly_eq classes_assembly_eq isNull_def twin_fields
      example_vm_fields twin_collects accessor_values_def)

lemma twin_class_lines:
  "class_lines twin_vm (getTypeArray (Some 102) 401) 101 = []"
  "class_lines twin_vm (getTypeArray (Some 102) 401) 102 = []"
  "class_lines twin_vm (getTypeArray (Some 102) 401) 103 =
     [''0x00003000 UnityEngine.Application.get_persistentDataPath'' @ [CHR 0x0A],
      ''0x00003010 UnityEngine.Application.get_identifier'' @ [CHR 0x0A],
      ''0x00003020 UnityEngine.Application.get_version'' @ [CHR 0x0A]]"
  "class_lines twin_vm (getTypeArray (Some 102) 401) 105 =
     [''0x00002000 Game.Box<System.Object>.Get'' @ [CHR 0x0A],
      ''0x000020c4 Game.Box<System.Object>.Map'' @ [CHR 0x0A]]"
  by (simp_all add: class_lines_def traversed_klass_def reached_method_def
      accessor_values_def isNull_def twin_fields example_vm_fields example_vm_tables
      twin_names formatNativePointer_def hex_fixed_numeral hex_char_def)

lemma twin_toString:
  "class_toString twin_vm 101 = ''class System.Object''"
  "class_toString twin_vm 102 = ''class System.Type''"
  "class_toString twin_vm 103 = ''class UnityEngine.Application''"
  "class_toString twin_vm 105 = ''class Game.Box<T>''"
  by (simp_all add: twin_fields example_vm_tables)

section \<open>C1: the lines of the Methods dump\<close>

text \<open>
  C1: the chunks that a run of the Methods dump yields are, for every assembly the run
  enters, in order, and for every class of that assembly's by-name table, in slot order,
  the lines of that class: one for each method reached in the class traversed (the method
  itself, or its placeholder instantiation where the loop inflated it) whose virtual
  address is not null, in the order of the methods, and nothing for the others. A line is
  the relative virtual address as a token of fixed width (\<open>0x\<close> and two hexadecimal digits
  for each byte of a pointer), a space, the full type name of the class traversed, a dot,
  the method name and a line feed. The same holds of the method loop over any list of
  methods. The generator that \<open>methods()\<close> stores is such a run. The traversal of an
  assembly ends with a thrown condition exactly when the Classes dump of that assembly
  does: a method without an address raises nothing.
\<close>

theorem C1_method_lines:
  "chunks (fst (methods_generator SystemType SystemObject vm)) =
     concat (map (\<lambda>assembly.
                    concat (map (class_lines vm (getTypeArray SystemType SystemObject))
                              (dumped_classes vm assembly)))
               (entered (methods_assembly vm (getTypeArray SystemType SystemObject))
                  (accessor_values (assemblies vm)))) \<and>
   class_lines vm typeArray klass0 =
     map (\<lambda>m. formatNativePointer (pointerSize vm) (method_relativeVirtualAddress vm m)
               @ '' '' @ class_type_name vm (traversed_klass vm typeArray klass0)
               @ ''.'' @ method_name vm m @ [CHR 0x0A])
       (filter (\<lambda>m. \<not> isNull (method_virtualAddress vm m))
          (map (reached_method vm typeArray (traversed_klass vm typeArray klass0))
             (accessor_values (class_methods vm (traversed_klass vm typeArray klass0))))) \<and>
   chunks (fst (methods_assembly vm typeArray assembly)) =
     concat (map (class_lines vm typeArray) (dumped_classes vm assembly)) \<and>
   chunks (methods_klass vm typeArray klass0) = class_lines vm typeArray klass0 \<and>
   (\<forall>dumper. Dumper_methods vm this = Inr dumper \<longrightarrow>
      (\<exists>t root. p_generator dumper = Some (methods_generator t root))) \<and>
   chunks (methods_method_loop vm typeArray klass methods) =
     map (\<lambda>m. formatNativePointer (pointerSize vm) (method_relativeVirtualAddress vm m)
               @ '' '' @ class_type_name vm klass @ ''.'' @ method_name vm m @ [CHR 0x0A])
       (filter (\<lambda>m. \<not> isNull (method_virtualAddress vm m))
          (map (reached_method vm typeArray klass) methods)) \<and>
   length (formatNativePointer (pointerSize vm) p) = 2 + 2 * pointerSize vm \<and>
   take 2 (formatNativePointer (pointerSize vm) p) = ''0x'' \<and>
   list_all is_hex_digit (drop 2 (formatNativePointer (pointerSize vm) p)) \<and>
   snd (methods_assembly vm typeArray assembly) = snd (classes_assembly vm assembly)"
proof -
  have run: "chunks (fst (methods_generator SystemType SystemObject vm)) =
     concat (map (\<lambda>assembly.
                    concat (map (class_lines vm (getTypeArray SystemType SystemObject))
                              (dumped_classes vm assembly)))
               (entered (methods_assembly vm (getTypeArray SystemType SystemObject))
                  (accessor_values (assemblies vm))))"
    by (rule chunks_methods_generator)
  have cls: "class_lines vm typeArray klass0 =
     map (\<lambda>m. formatNativePointer (pointerSize vm) (method_relativeVirtualAddress vm m)
               @ '' '' @ class_type_name vm (traversed_klass vm typeArray klass0)
               @ ''.'' @ method_name vm m @ [CHR 0x0A])
       (filter (\<lambda>m. \<not> isNull (method_virtualAddress vm m))
          (map (reached_method vm typeArray (traversed_klass vm typeArray klass0))
             (accessor_values (class_methods vm (traversed_klass vm typeArray klass0)))))"
    by (rule class_lines_def)
  have asm: "chunks (fst (methods_assembly vm typeArray assembly)) =
     concat (map (class_lines vm typeArray) (dumped_classes vm assembly))"
    by (rule chunks_methods_assembly)
  have kl: "chunks (methods_klass vm typeArray klass0) = class_lines vm typeArray klass0"
    by (rule chunks_methods_klass)
  have stored: "\<exists>t root. p_generator dumper = Some (methods_generator t root)"
    if "Dumper_methods vm this = Inr dumper" for dumper
    using that by (rule Dumper_methods_generator)
  have lines: "chunks (methods_method_loop vm typeArray klass methods) =
     map (\<lambda>m. formatNativePointer (pointerSize vm) (method_relativeVirtualAddress vm m)
               @ '' '' @ class_type_name vm klass @ ''.'' @ method_name vm m @ [CHR 0x0A])
       (filter (\<lambda>m. \<not> isNull (method_virtualAddress vm m))
          (map (reached_method vm typeArray klass) methods))"
    using chunks_methods_method_loop[of vm typeArray klass methods]
    by (simp add: method_line_def[abs_def])
  have len: "length (formatNativePointer (pointerSize vm) p) = 2 + 2 * pointerSize vm"
    by (simp add: formatNativePointer_def length_hex_fixed)
  have pre: "take 2 (formatNativePointer (pointerSize vm) p) = ''0x''"
    by (simp add: formatNativePointer_def)
  have dig: "list_all is_hex_digit (drop 2 (formatNativePointer (pointerSize vm) p))"
    using hex_fixed_digits by (simp add: formatNativePointer_def list_all_iff)
  have err: "snd (methods_assembly vm typeArray assembly) = snd (classes_assembly vm assembly)"
    by (simp add: methods_assembly_eq classes_assembly_eq split: sum.splits)
  show ?thesis
    apply (intro conjI allI impI)
             apply (rule run)
            apply (rule cls)
           apply (rule asm)
          apply (rule kl)
         apply (erule stored)
        apply (rule lines)
       apply (rule len)
      apply (rule pre)
     apply (rule dig)
    apply (rule err)
    done
qed

theorem C1_method_lines_witness:
  "chunks (fst (methods_generator (Some 102) 401 example_vm)) =
     [''0x00003000 UnityEngine.Application.get_persistentDataPath'' @ [CHR 0x0A],
      ''0x00003010 UnityEngine.Application.get_identifier'' @ [CHR 0x0A],
      ''0x00003020 UnityEngine.Application.get_version'' @ [CHR 0x0A],
      ''0x00001000 Game.Player.Update'' @ [CHR 0x0A],
      ''0x000010f0 Game.Player.Cast'' @ [CHR 0x0A],
      ''0x00002000 Game.Box<System.Object>.Get'' @ [CHR 0x0A],
      ''0x000020c4 Game.Box<System.Object>.Map'' @ [CHR 0x0A]] \<and>
   Dumper_methods example_vm new_Dumper =
     Inr (new_Dumper\<lparr>p_generator := Some (methods_generator (Some 102) 401),
                     p_extension := Some ''ms''\<rparr>) \<and>
   accessor_values (class_methods example_vm 104) = [304, 305, 306] \<and>
   chunks (methods_method_loop example_vm (getTypeArray (Some 102) 401) 104 [304, 305, 306]) =
     [''0x00001000 Game.Player.Update'' @ [CHR 0x0A],
      ''0x000010f0 Game.Player.Cast'' @ [CHR 0x0A]] \<and>
   isNull (method_virtualAddress example_vm 305) \<and>
   reached_method example_vm (getTypeArray (Some 102) 401) 104 306 = 307"
proof -
  note inst = C1_method_lines[of "Some 102" 401 example_vm "getTypeArray (Some 102) 401" 104
      3 new_Dumper 104 "[304, 305, 306]" 0]
  from inst
  have "chunks (fst (methods_generator (Some 102) 401 example_vm)) =
     concat (map (\<lambda>assembly.
                    concat (map (class_lines example_vm (getTypeArray (Some 102) 401))
                              (dumped_classes example_vm assembly)))
               (entered (methods_assembly example_vm (getTypeArray (Some 102) 401))
                  (accessor_values (assemblies example_vm))))"
    by (rule conjunct1)
  then have whole: "chunks (fst (methods_generator (Some 102) 401 example_vm)) =
     [''0x00003000 UnityEngine.Application.get_persistentDataPath'' @ [CHR 0x0A],
      ''0x00003010 UnityEngine.Application.get_identifier'' @ [CHR 0x0A],
      ''0x00003020 UnityEngine.Application.get_version'' @ [CHR 0x0A],
      ''0x00001000 Game.Player.Update'' @ [CHR 0x0A],
      ''0x000010f0 Game.Player.Cast'' @ [CHR 0x0A],
      ''0x00002000 Game.Box<System.Object>.Get'' @ [CHR 0x0A],
      ''0x000020c4 Game.Box<System.Object>.Map'' @ [CHR 0x0A]]"
    by (simp add: example_entered example_dumped_classes example_class_lines del: One_nat_def)
  have r: "map (reached_method example_vm (getTypeArray (Some 102) 401) 104) [304, 305, 306] =
           [304, 305, 307]"
    by (simp add: reached_method_def example_vm_fields)
  have v: "filter (\<lambda>m. \<not> isNull (method_virtualAddress example_vm m)) [304, 305, 307] = [304, 307]"
    by (simp add: isNull_def example_vm_tables)
  have f: "formatNativePointer 4 0x1000 = ''0x00001000''"
    "formatNativePointer 4 0x10f0 = ''0x000010f0''"
    by (simp_all add: formatNativePointer_def hex_fixed_numeral hex_char_def)
  have n: "method_relativeVirtualAddress example_vm 304 = 0x1000"
    "method_relativeVirtualAddress example_vm 307 = 0x10f0"
    "method_name example_vm 304 = ''Update''" "method_name example_vm 307 = ''Cast''"
    "pointerSize example_vm = 4"
    by (simp_all add: example_vm_tables example_vm_fields)
  from inst
  have "chunks (methods_method_loop example_vm (getTypeArray (Some 102) 401) 104 [304, 305, 306]) =
     map (\<lambda>m. formatNativePointer (pointerSize example_vm) (method_relativeVirtualAddress example_vm m)
               @ '' '' @ class_type_name example_vm 104 @ ''.'' @ method_name example_vm m @ [CHR 0x0A])
       (filter (\<lambda>m. \<not> isNull (method_virtualAddress example_vm m))
          (map (reached_method example_vm (getTypeArray (Some 102) 401) 104) [304, 305, 306]))"
    by (elim conjE)
  then have loop: "chunks (methods_method_loop example_vm (getTypeArray (Some 102) 401) 104 [304, 305, 306]) =
     [''0x00001000 Game.Player.Update'' @ [CHR 0x0A],
      ''0x000010f0 Game.Player.Cast'' @ [CHR 0x0A]]"
    unfolding r v by (simp add: n f example_names)
  have ms: "accessor_values (class_methods example_vm 104) = [304, 305, 306]"
    by (simp add: example_vm_tables accessor_values_def)
  have null: "isNull (method_virtualAddress example_vm 305)"
    by (simp add: isNull_def example_vm_tables)
  have reach: "reached_method example_vm (getTypeArray (Some 102) 401) 104 306 = 307"
    by (simp add: reached_method_def example_vm_fields)
  from whole example_Dumper_methods ms loop null reach show ?thesis
    by (intro conjI)
qed

section \<open>C2: the classes of an image under the current layout\<close>

text \<open>
  C2, as stated, fails: the collection is keyed by full type name, so an image whose two
  classes report the same full type name yields one class view, not \<open>classCount = 2\<close>.
\<close>

theorem C2_counterexample:
  "\<not> isLegacy twin_vm \<and> imageGetClassCount twin_vm 13 = 2 \<and>
   new_Il2CppImage 13 = Inr (fresh_image 13) \<and>
   fst (Image_classes twin_vm (fresh_image 13)) = Inr [(''Game.Player'', 105)]"
  by (simp add: Image_classes_fresh image_traversal_def current_traversal_def
      new_Il2CppImage_fresh isNull_def new_Il2CppClass_def class_type_name_def
      twin_vm_def example_vm_fields example_vm_tables example_table_def upt_conv_Cons)

text \<open>
  C2, amended: for every image under the current layout whose class handles are non-null,
  \<open>classes\<close> is the by-name table built from the VM's class \<open>N\<close> of the image for every \<open>N\<close>
  in \<open>[0, classCount)\<close>, in index order. It holds at most \<open>classCount\<close> class views; when
  the full type names of these classes are pairwise distinct it holds exactly the
  \<open>classCount\<close> classes, pairwise distinct, in index order. A second query on the same image
  object returns the same table and leaves the object as it is, whatever the VM then
  holds: the table is not read again.
\<close>

theorem C2_current_classes:
  assumes "\<not> isLegacy vm"
    and "new_Il2CppImage h = Inr img"
    and "\<forall>n < imageGetClassCount vm h. \<not> isNull (imageGetClass vm h n)"
  shows "fst (Image_classes vm img) =
           Inr (table_of (class_type_name vm)
                  (map (imageGetClass vm h) [0..<imageGetClassCount vm h]) []) \<and>
         length (accessor_values (table_of (class_type_name vm)
                  (map (imageGetClass vm h) [0..<imageGetClassCount vm h]) []))
           \<le> imageGetClassCount vm h \<and>
         (distinct (map (class_type_name vm) (map (imageGetClass vm h) [0..<imageGetClassCount vm h]))
            \<longrightarrow> accessor_values (table_of (class_type_name vm)
                  (map (imageGetClass vm h) [0..<imageGetClassCount vm h]) [])
                  = map (imageGetClass vm h) [0..<imageGetClassCount vm h] \<and>
                distinct (map (imageGetClass vm h) [0..<imageGetClassCount vm h]) \<and>
                length (map (imageGetClass vm h) [0..<imageGetClassCount vm h])
                  = imageGetClassCount vm h) \<and>
         Image_classes vm' (snd (Image_classes vm img)) =
           (fst (Image_classes vm img), snd (Image_classes vm img))"
proof -
  let ?cs = "map (imageGetClass vm h) [0..<imageGetClassCount vm h]"
  let ?table = "table_of (class_type_name vm) ?cs []"
  from assms(2) have img: "img = fresh_image h"
    by (simp add: new_Il2CppImage_fresh split: if_splits)
  have nonnull: "\<forall>k \<in> set ?cs. \<not> isNull k"
    using assms(3) by auto
  have first: "fst (Image_classes vm img) = Inr ?table"
    using assms(1) nonnull
    by (simp add: img Image_classes_fresh image_traversal_def current_traversal_def collect_ok)
  have len: "length (accessor_values ?table) \<le> imageGetClassCount vm h"
    using length_table_of[of "class_type_name vm" ?cs] by (simp add: accessor_values_def)
  have dist: "accessor_values ?table = ?cs \<and> distinct ?cs \<and> length ?cs = imageGetClassCount vm h"
    if d: "distinct (map (class_type_name vm) ?cs)"
  proof -
    have "accessor_values ?table = ?cs"
      using table_of_distinct[OF d] by (simp add: accessor_values_def comp_def)
    moreover have "distinct ?cs" using d by (rule distinct_map[THEN iffD1, THEN conjunct1])
    ultimately show ?thesis by simp
  qed
  have again: "Image_classes vm' (snd (Image_classes vm img)) =
      (fst (Image_classes vm img), snd (Image_classes vm img))"
    using Image_classes_cached[of vm h ?table vm'] first by (simp add: img)
  from first len dist again show ?thesis by blast
qed

theorem C2_current_classes_witness:
  "fst (Image_classes example_vm (fresh_image 13)) =
     Inr [(''Game.Player'', 104), (''Game.Box<T>'', 105)] \<and>
   imageGetClassCount example_vm 13 = 2 \<and>
   map (imageGetClass example_vm 13) [0..<2] = [104, 105] \<and>
   accessor_values [(''Game.Player'', 104 :: nat), (''Game.Box<T>'', 105)] = [104, 105] \<and>
   Image_classes twin_vm (snd (Image_classes example_vm (fresh_image 13))) =
     (Inr [(''Game.Player'', 104), (''Game.Box<T>'', 105)],
      snd (Image_classes example_vm (fresh_image 13)))"
proof -
  have a: "\<not> isLegacy example_vm" by (simp add: example_vm_fields)
  have b: "new_Il2CppImage 13 = Inr (fresh_image 13)"
    by (simp add: new_Il2CppImage_fresh isNull_def)
  have c: "\<forall>n < imageGetClassCount example_vm 13. \<not> isNull (imageGetClass example_vm 13 n)"
    by (simp add: example_vm_fields example_table_def isNull_def)
  have n: "imageGetClassCount example_vm 13 = 2"
    by (simp add: example_vm_fields)
  have cs: "map (imageGetClass example_vm 13) [0..<2] = [104, 105]"
    by (simp add: example_vm_fields example_table_def upt_conv_Cons)
  have t: "table_of (class_type_name example_vm) [104, 105] [] =
           [(''Game.Player'', 104), (''Game.Box<T>'', 105)]"
    by (simp add: example_names)
  have d: "distinct (map (class_type_name example_vm) [104, 105])"
    by (simp add: example_names)
  note inst = C2_current_classes[OF a b c, of twin_vm, unfolded n cs t]
  from inst have first: "fst (Image_classes example_vm (fresh_image 13)) =
      Inr [(''Game.Player'', 104), (''Game.Box<T>'', 105)]"
    by blast
  from inst d have vals:
    "accessor_values [(''Game.Player'', 104 :: nat), (''Game.Box<T>'', 105)] = [104, 105]"
    by blast
  from inst have "Image_classes twin_vm (snd (Image_classes example_vm (fresh_image 13))) =
      (fst (Image_classes example_vm (fresh_image 13)),
       snd (Image_classes example_vm (fresh_image 13)))"
    by blast
  with first n cs vals show ?thesis by simp
qed

section \<open>C3: which methods are inflated\<close>




section \<open>C4: the classes of an image under the legacy layout\<close>

text \<open>
  C4: for every image under the legacy layout with \<open>classStart = S\<close> and \<open>classCount = C\<close>,
  \<open>classes\<close> is what storing the classes resolved for the indices \<open>S, S + 1, ..., S + C - 1\<close>
  gives, one after the other in this order, each class being the VM's answer for the
  descriptor of its index. The traversal ends with \<open>InvalidHandle\<close> at the first index
  that resolves to a null handle; when none does, the result is the by-name table of all
  \<open>C\<close> resolved classes. The descriptor of an index holds that index at offset 0, and the
  type enum \<open>0x20\<close> at \<open>offsetOfTypeEnum\<close> when that offset lies beyond the index.
\<close>

theorem C4_legacy_classes:
  assumes "isLegacy vm"
    and "new_Il2CppImage h = Inr img"
  shows "(let indices = [imageGetClassStart vm h..
                         imageGetClassStart vm h + int (imageGetClassCount vm h) - 1];
              resolve = (\<lambda>i. typeGetClassOrElementClass vm (descriptor vm i))
          in fst (Image_classes vm img) = collect vm (map resolve indices) [] \<and>
             length indices = imageGetClassCount vm h \<and>
             ((\<forall>i \<in> set indices. \<not> isNull (resolve i)) \<longrightarrow>
                fst (Image_classes vm img)
                  = Inr (table_of (class_type_name vm) (map resolve indices) [])) \<and>
             (\<forall>i. - (2 ^ 31) \<le> i \<and> i < 2 ^ 31 \<longrightarrow> readInt 0 (descriptor vm i) = Some i) \<and>
             (\<forall>i. 4 \<le> offsetOfTypeEnum vm \<longrightarrow>
                readInt (offsetOfTypeEnum vm) (descriptor vm i) = Some 0x20))"
proof -
  let ?indices = "[imageGetClassStart vm h..
                   imageGetClassStart vm h + int (imageGetClassCount vm h) - 1]"
  let ?resolve = "\<lambda>i. typeGetClassOrElementClass vm (descriptor vm i)"
  from assms(2) have img: "img = fresh_image h"
    by (simp add: new_Il2CppImage_fresh split: if_splits)
  have first: "fst (Image_classes vm img) = collect vm (map ?resolve ?indices) []"
    using assms(1)
    by (simp add: img Image_classes_fresh image_traversal_def legacy_traversal_def
        legacy_indices_def)
  have len: "length ?indices = imageGetClassCount vm h"
    by simp
  have ok: "fst (Image_classes vm img) = Inr (table_of (class_type_name vm) (map ?resolve ?indices) [])"
    if "\<forall>i \<in> set ?indices. \<not> isNull (?resolve i)"
  proof -
    from that have "\<forall>k \<in> set (map ?resolve ?indices). \<not> isNull k" by auto
    then show ?thesis by (simp only: first collect_ok)
  qed
  have index: "readInt 0 (descriptor vm i) = Some i" if "- (2 ^ 31) \<le> i \<and> i < 2 ^ 31" for i
    using that by (simp add: descriptor_def readInt_writeInt_range)
  have enum: "readInt (offsetOfTypeEnum vm) (descriptor vm i) = Some 0x20"
    if "4 \<le> offsetOfTypeEnum vm" for i
  proof -
    have "readInt (offsetOfTypeEnum vm) (descriptor vm i) =
          readInt (offsetOfTypeEnum vm)
            (writeInt (offsetOfTypeEnum vm) 0x20 (Memory_alloc (pointerSize vm)))"
      using that by (simp add: descriptor_def readInt_writeInt_other)
    also have "\<dots> = Some 0x20"
      by (rule readInt_writeInt_range) simp_all
    finally show ?thesis .
  qed
  from first len ok index enum show ?thesis
    unfolding Let_def by blast
qed

theorem C4_legacy_classes_witness:
  "fst (Image_classes legacy_vm (fresh_image 13)) =
     Inr [(''Game.Player'', 104), (''Game.Box<T>'', 105)] \<and>
   imageGetClassStart legacy_vm 13 = 3 \<and> imageGetClassCount legacy_vm 13 = 2 \<and>
   typeGetClassOrElementClass legacy_vm (descriptor legacy_vm 3) = 104 \<and>
   typeGetClassOrElementClass legacy_vm (descriptor legacy_vm 4) = 105 \<and>
   readInt 0 (descriptor legacy_vm 4) = Some 4 \<and>
   readInt (offsetOfTypeEnum legacy_vm) (descriptor legacy_vm 4) = Some 0x20"
proof -
  have a: "isLegacy legacy_vm" by (simp add: legacy_vm_def)
  have b: "new_Il2CppImage 13 = Inr (fresh_image 13)"
    by (simp add: new_Il2CppImage_fresh isNull_def)
  have s: "imageGetClassStart legacy_vm 13 = 3" "imageGetClassCount legacy_vm 13 = 2"
    "offsetOfTypeEnum legacy_vm = 10"
    by (simp_all add: legacy_vm_def example_vm_fields)
  have idx: "[3..3 + int 2 - 1] = [3, 4]"
    by (simp add: upto_rec1)
  have r: "typeGetClassOrElementClass legacy_vm (descriptor legacy_vm 3) = 104"
    "typeGetClassOrElementClass legacy_vm (descriptor legacy_vm 4) = 105"
    by (simp_all add: legacy_vm_def example_vm_fields descriptor_def writeInt_def Let_def
        example_table_def)
  have t: "table_of (class_type_name legacy_vm) [104, 105] [] =
           [(''Game.Player'', 104), (''Game.Box<T>'', 105)]"
    by (simp add: legacy_vm_def example_vm_fields example_vm_tables class_type_name_def)
  have m: "map (\<lambda>i. typeGetClassOrElementClass legacy_vm (descriptor legacy_vm i)) [3, 4] =
           [104, 105]"
    using r by simp
  have nn: "\<forall>i \<in> set [3, 4].
              \<not> isNull (typeGetClassOrElementClass legacy_vm (descriptor legacy_vm i))"
    using r by (simp add: isNull_def)
  note inst = C4_legacy_classes[OF a b, unfolded Let_def s idx]
  from inst nn have "fst (Image_classes legacy_vm (fresh_image 13)) =
      Inr (table_of (class_type_name legacy_vm)
             (map (\<lambda>i. typeGetClassOrElementClass legacy_vm (descriptor legacy_vm i)) [3, 4]) [])"
    by blast
  then have first: "fst (Image_classes legacy_vm (fresh_image 13)) =
      Inr [(''Game.Player'', 104), (''Game.Box<T>'', 105)]"
    by (simp only: m t)
  from inst have "\<forall>i. - (2 ^ 31) \<le> i \<and> i < 2 ^ 31 \<longrightarrow> readInt 0 (descriptor legacy_vm i) = Some i"
    by blast
  then have index: "readInt 0 (descriptor legacy_vm 4) = Some 4"
    by simp
  from inst have "\<forall>i. (4::nat) \<le> 10 \<longrightarrow> readInt 10 (descriptor legacy_vm i) = Some 0x20"
    by blast
  then have enum: "readInt (offsetOfTypeEnum legacy_vm) (descriptor legacy_vm 4) = Some 0x20"
    by (simp add: s)
  from first s r index enum show ?thesis by simp
qed

section \<open>C5: the placeholder arguments\<close>

text \<open>
  C5: when \<open>methods()\<close> returns a dumper, the corlib table holds a class \<open>System.Object\<close>,
  and in every run of the stored generator each request to inflate a class or a method
  passes an argument array whose length is the generic parameter count of that class or
  method and whose every slot holds the reflection object of the type of \<open>System.Object\<close>.
\<close>

theorem C5_placeholder_arguments:
  assumes "Dumper_methods vm this = Inr dumper"
  shows "\<exists>classes klass generator.
           fst (Image_classes vm (fresh_image (corlib vm))) = Inr classes \<and>
           accessor_get classes ''System.Object'' = Some klass \<and>
           p_generator dumper = Some generator \<and>
           (\<forall>e \<in> set (fst (generator vm')).
              case e of
                InflateClass k arguments \<Rightarrow>
                  length (elements arguments) = class_genericParameterCount vm' k \<and>
                  list_all (\<lambda>x. x = type_object vm (class_type vm klass)) (elements arguments)
              | InflateMethod m arguments \<Rightarrow>
                  length (elements arguments) = method_genericParameterCount vm' m \<and>
                  list_all (\<lambda>x. x = type_object vm (class_type vm klass)) (elements arguments)
              | Inform s \<Rightarrow> True
              | Yield s \<Rightarrow> True)"
proof -
  from assms obtain classes klass where
    c: "fst (Image_classes vm (fresh_image (corlib vm))) = Inr classes" and
    k: "accessor_get classes ''System.Object'' = Some klass" and
    d: "dumper = this\<lparr>p_generator :=
            Some (methods_generator (accessor_get classes ''System.Type'')
                    (type_object vm (class_type vm klass))),
          p_extension := Some ''ms''\<rparr>"
    by (auto simp: Dumper_methods_def new_Il2CppImage_fresh Let_def
        split: if_splits sum.splits option.splits)
  let ?g = "methods_generator (accessor_get classes ''System.Type'')
              (type_object vm (class_type vm klass))"
  have g: "p_generator dumper = Some ?g" by (simp add: d)
  have "\<forall>e \<in> set (fst (?g vm')). placeholder_request vm' (type_object vm (class_type vm klass)) e"
    by (rule placeholder_methods_generator)
  then have "\<forall>e \<in> set (fst (?g vm')).
              case e of
                InflateClass k arguments \<Rightarrow>
                  length (elements arguments) = class_genericParameterCount vm' k \<and>
                  list_all (\<lambda>x. x = type_object vm (class_type vm klass)) (elements arguments)
              | InflateMethod m arguments \<Rightarrow>
                  length (elements arguments) = method_genericParameterCount vm' m \<and>
                  list_all (\<lambda>x. x = type_object vm (class_type vm klass)) (elements arguments)
              | Inform s \<Rightarrow> True
              | Yield s \<Rightarrow> True"
    by (simp add: placeholder_request_def)
  with c k g show ?thesis by blast
qed

theorem C5_placeholder_arguments_witness:
  "Dumper_methods example_vm new_Dumper =
     Inr (new_Dumper\<lparr>p_generator := Some (methods_generator (Some 102) 401),
                     p_extension := Some ''ms''\<rparr>) \<and>
   accessor_get [(''System.Object'', 101 :: nat), (''System.Type'', 102)] ''System.Object'' = Some 101 \<and>
   type_object example_vm (class_type example_vm 101) = 401 \<and>
   InflateClass 105 (getTypeArray (Some 102) 401 1)
     \<in> set (fst (methods_generator (Some 102) 401 example_vm)) \<and>
   InflateMethod 306 (getTypeArray (Some 102) 401 2)
     \<in> set (fst (methods_generator (Some 102) 401 example_vm)) \<and>
   class_genericParameterCount example_vm 105 = 1 \<and>
   method_genericParameterCount example_vm 306 = 2 \<and>
   elements (getTypeArray (Some 102) 401 1) = [401] \<and>
   elements (getTypeArray (Some 102) 401 2) = [401, 401]"
proof -
  note d = example_Dumper_methods
  from C5_placeholder_arguments[OF d, of example_vm]
  obtain classes klass generator where
    "fst (Image_classes example_vm (fresh_image (corlib example_vm))) = Inr classes"
    "accessor_get classes ''System.Object'' = Some klass"
    "p_generator (new_Dumper\<lparr>p_generator := Some (methods_generator (Some 102) 401),
                     p_extension := Some ''ms''\<rparr>) = Some generator"
    by blast
  then have "klass = 101" "generator = methods_generator (Some 102) 401"
    by (auto simp add: example_vm_fields example_classes accessor_get_def)
  moreover have "replicate 2 (401 :: nat) = [401, 401]"
    by (simp add: numeral_2_eq_2)
  ultimately show ?thesis
    using d
    by (simp add: example_methods_run example_vm_fields accessor_get_def getTypeArray_elements)
qed

section \<open>C6: the by-name class table\<close>

text \<open>
  C6: for every image whose class handles are non-null, under either layout, the by-name
  table is built by storing the classes in traversal order, each under its full type name.
  Its keys stand in the order in which the names first occur in the traversal; looking a
  name up yields the last class of the traversal that has it, so of two classes with the
  same full type name the later one holds the slot.
\<close>

theorem C6_by_name_table:
  assumes "new_Il2CppImage h = Inr img"
    and "\<forall>k \<in> set (image_traversal vm h). \<not> isNull k"
  shows "fst (Image_classes vm img) =
           Inr (fold (\<lambda>k. accessor_set (class_type_name vm k) k) (image_traversal vm h) []) \<and>
         (\<forall>table. fst (Image_classes vm img) = Inr table \<longrightarrow>
            map fst table = first_occurrences (map (class_type_name vm) (image_traversal vm h)) \<and>
            (\<forall>n. accessor_get table n = last_with (class_type_name vm) (image_traversal vm h) n) \<and>
            (\<forall>xs k ys. image_traversal vm h = xs @ k # ys \<and>
                       class_type_name vm k \<notin> class_type_name vm ` set ys \<longrightarrow>
                       accessor_get table (class_type_name vm k) = Some k))"
proof -
  let ?f = "class_type_name vm"
  let ?cs = "image_traversal vm h"
  from assms(1) have img: "img = fresh_image h"
    by (simp add: new_Il2CppImage_fresh split: if_splits)
  have first: "fst (Image_classes vm img) = Inr (table_of ?f ?cs [])"
    using assms(2) by (simp add: img Image_classes_fresh collect_ok)
  have get: "accessor_get (table_of ?f ?cs []) n = last_with ?f ?cs n" for n
    by (simp add: accessor_get_def map_of_table_of split: option.splits)
  have split: "accessor_get (table_of ?f ?cs []) (?f k) = Some k"
    if "?cs = xs @ k # ys \<and> ?f k \<notin> ?f ` set ys" for xs k ys
  proof -
    from that have "last_with ?f ?cs (?f k) = Some k"
      using last_with_split[of ?f k ys xs] by simp
    then show ?thesis by (simp only: get)
  qed
  have keys: "map fst (table_of ?f ?cs []) = first_occurrences (map ?f ?cs)"
    by (rule keys_table_of)
  have built: "fst (Image_classes vm img) = Inr (fold (\<lambda>k. accessor_set (?f k) k) ?cs [])"
    using first by (simp only: table_of_def)
  have rest: "map fst table = first_occurrences (map ?f ?cs) \<and>
      (\<forall>n. accessor_get table n = last_with ?f ?cs n) \<and>
      (\<forall>xs k ys. ?cs = xs @ k # ys \<and> ?f k \<notin> ?f ` set ys \<longrightarrow>
                 accessor_get table (?f k) = Some k)"
    if "fst (Image_classes vm img) = Inr table" for table
  proof -
    from that first have "table = table_of ?f ?cs []" by simp
    with keys get split show ?thesis by blast
  qed
  from built rest show ?thesis by blast
qed

theorem C6_by_name_table_witness:
  "fst (Image_classes twin_vm (fresh_image 13)) = Inr [(''Game.Player'', 105)] \<and>
   image_traversal twin_vm 13 = [104, 105] \<and>
   class_type_name twin_vm 104 = ''Game.Player'' \<and>
   class_type_name twin_vm 105 = ''Game.Player'' \<and>
   accessor_get [(''Game.Player'', 105 :: nat)] ''Game.Player'' = Some 105 \<and>
   map fst [(''Game.Player'', 105 :: nat)] = first_occurrences [''Game.Player'', ''Game.Player'']"
proof -
  have a: "new_Il2CppImage 13 = Inr (fresh_image 13)"
    by (simp add: new_Il2CppImage_fresh isNull_def)
  have b: "\<forall>k \<in> set (image_traversal twin_vm 13). \<not> isNull k"
    by (simp add: image_traversal_example isNull_def)
  have n: "class_type_name twin_vm 104 = ''Game.Player''"
    "class_type_name twin_vm 105 = ''Game.Player''"
    by (rule example_names)+
  note inst = C6_by_name_table[OF a b, unfolded image_traversal_example]
  from inst
  have "fst (Image_classes twin_vm (fresh_image 13)) =
          Inr (fold (\<lambda>k. accessor_set (class_type_name twin_vm k) k) [104, 105] [])"
    by (rule conjunct1)
  then have first: "fst (Image_classes twin_vm (fresh_image 13)) = Inr [(''Game.Player'', 105)]"
    by (simp add: n)
  note rest = inst[THEN conjunct2, rule_format, OF first]
  have split: "[104, 105] = [104] @ 105 # [] \<and>
      class_type_name twin_vm 105 \<notin> class_type_name twin_vm ` set []"
    by simp
  from rest[THEN conjunct2, THEN conjunct2, rule_format, OF split]
  have get: "accessor_get [(''Game.Player'', 105 :: nat)] ''Game.Player'' = Some 105"
    by (simp only: n)
  from rest[THEN conjunct1]
  have keys: "map fst [(''Game.Player'', 105 :: nat)] =
      first_occurrences [''Game.Player'', ''Game.Player'']"
    by (simp add: n)
  from first n get keys show ?thesis
    by (simp add: image_traversal_example)
qed

section \<open>C7: the file handle of build\<close>

text \<open>
  C7, as stated, fails: \<open>build\<close> has no scoped acquisition. When chunk production throws
  partway, \<open>flush\<close> and \<open>close\<close> are never reached: the handle stays open and what was
  written stays in the stream's buffer. Here the third assembly of the process has a null
  class handle, after the chunks of the first two assemblies were written.
\<close>

theorem C7_counterexample:
  "build broken_vm example_host
     (Dumper_classes (Dumper_fileName ''out'' (Dumper_directoryPath ''/sdcard'' new_Dumper))) =
   \<lparr>out_file = Some \<lparr>file_path = ''/sdcard/out.cs'', on_disk = [],
                      pending = ''class System.Objectclass System.Typeclass UnityEngine.Application'',
                      is_open = True\<rparr>,
    console = [(Info, ''Dumping '' @ [CHR 0x1B] @ ''[1mmscorlib'' @ [CHR 0x1B] @ ''[0m...''),
               (Info, ''Dumping '' @ [CHR 0x1B] @ ''[1mUnityEngine.CoreModule'' @ [CHR 0x1B] @ ''[0m...''),
               (Info, ''Dumping '' @ [CHR 0x1B] @ ''[1mGame'' @ [CHR 0x1B] @ ''[0m...'')],
    thrown = Some InvalidHandle\<rparr>"
proof -
  have g: "p_generator (Dumper_classes (Dumper_fileName ''out''
             (Dumper_directoryPath ''/sdcard'' new_Dumper))) = Some classes_generator"
    by (simp add: Dumper_classes_def)
  show ?thesis
    by (simp add: build_unfolded[OF explicit_destination g] broken_classes_run example_host_def)
qed

text \<open>
  C7, amended: when the destination path is determined and a dump kind was selected,
  \<open>build\<close> fails with \<open>IOFailure\<close>, with no file opened and nothing produced, if the
  destination cannot be opened for writing. Otherwise it writes every chunk as produced;
  when chunk production completes, the file is flushed and closed and holds the chunks in
  order; when chunk production throws, the condition propagates and the file is left open
  with the chunks written so far unflushed.
\<close>

theorem C7_build_file_handling:
  assumes "destinationPath vm host this = Inr path"
    and "p_generator this = Some generator"
  shows "(\<not> writable host path \<longrightarrow>
            build vm host this = \<lparr>out_file = None, console = [], thrown = Some IOFailure\<rparr>) \<and>
         (writable host path \<and> snd (generator vm) = None \<longrightarrow>
            out_file (build vm host this) =
              Some \<lparr>file_path = path, on_disk = concat (chunks (fst (generator vm))),
                    pending = [], is_open = False\<rparr> \<and>
            thrown (build vm host this) = None) \<and>
         (\<forall>e. writable host path \<and> snd (generator vm) = Some e \<longrightarrow>
            out_file (build vm host this) =
              Some \<lparr>file_path = path, on_disk = [],
                    pending = concat (chunks (fst (generator vm))), is_open = True\<rparr> \<and>
            thrown (build vm host this) = Some e)"
  by (simp add: build_unfolded[OF assms])

theorem C7_build_file_handling_witness:
  "build example_vm locked_host
     (Dumper_classes (Dumper_fileName ''out'' (Dumper_directoryPath ''/sdcard'' new_Dumper))) =
     \<lparr>out_file = None, console = [], thrown = Some IOFailure\<rparr> \<and>
   out_file (build example_vm example_host
     (Dumper_classes (Dumper_fileName ''out'' (Dumper_directoryPath ''/sdcard'' new_Dumper)))) =
     Some \<lparr>file_path = ''/sdcard/out.cs'',
           on_disk = ''class System.Objectclass System.Typeclass UnityEngine.Applicationclass Game.Playerclass Game.Box<T>'',
           pending = [], is_open = False\<rparr> \<and>
   out_file (build broken_vm example_host
     (Dumper_classes (Dumper_fileName ''out'' (Dumper_directoryPath ''/sdcard'' new_Dumper)))) =
     Some \<lparr>file_path = ''/sdcard/out.cs'', on_disk = [],
           pending = ''class System.Objectclass System.Typeclass UnityEngine.Application'',
           is_open = True\<rparr> \<and>
   thrown (build broken_vm example_host
     (Dumper_classes (Dumper_fileName ''out'' (Dumper_directoryPath ''/sdcard'' new_Dumper)))) =
     Some InvalidHandle"
proof -
  let ?d = "Dumper_classes (Dumper_fileName ''out'' (Dumper_directoryPath ''/sdcard'' new_Dumper))"
  have g: "p_generator ?d = Some classes_generator"
    by (simp add: Dumper_classes_def)
  have w: "\<not> writable locked_host (''/sdcard'' @ ''/'' @ ''out'' @ ''.cs'')"
    "writable example_host (''/sdcard'' @ ''/'' @ ''out'' @ ''.cs'')"
    by (simp_all add: locked_host_def example_host_def)
  from C7_build_file_handling[OF explicit_destination[of example_vm locked_host "''out''" "''/sdcard''"] g] w(1)
  have one: "build example_vm locked_host ?d =
      \<lparr>out_file = None, console = [], thrown = Some IOFailure\<rparr>"
    by blast
  from C7_build_file_handling[OF explicit_destination[of example_vm example_host "''out''" "''/sdcard''"] g] w(2)
  have two: "out_file (build example_vm example_host ?d) =
      Some \<lparr>file_path = ''/sdcard'' @ ''/'' @ ''out'' @ ''.cs'',
            on_disk = concat (chunks (fst (classes_generator example_vm))),
            pending = [], is_open = False\<rparr>"
    by (simp add: example_classes_run)
  from C7_build_file_handling[OF explicit_destination[of broken_vm example_host "''out''" "''/sdcard''"] g] w(2)
  have three: "out_file (build broken_vm example_host ?d) =
      Some \<lparr>file_path = ''/sdcard'' @ ''/'' @ ''out'' @ ''.cs'', on_disk = [],
            pending = concat (chunks (fst (classes_generator broken_vm))), is_open = True\<rparr> \<and>
      thrown (build broken_vm example_host ?d) = Some InvalidHandle"
    by (simp add: broken_classes_run)
  from one two three show ?thesis
    by (simp add: example_classes_run broken_classes_run)
qed

section \<open>C8: both dumps iterate the by-name table\<close>

text \<open>
  C8: for every assembly over a non-null image handle whose class handles are non-null,
  the classes that a dump goes through are exactly the values of the image's by-name table,
  in slot order: the Classes dump yields the canonical text of each of them and nothing
  else, and the Methods dump yields the lines of each of them and nothing else, where the
  lines of a class are one line for each method reached in the class traversed whose
  virtual address is not null. A whole run of either dump yields this for every assembly
  it enters, in order. A class of the traversal that is followed by a class with the same
  full type name, and whose handle does not come again later, is not among these values:
  neither dump goes through it.
\<close>

theorem C8_dumps_iterate_table:
  assumes "\<not> isNull (assemblyGetImage vm a)"
    and "\<forall>k \<in> set (image_traversal vm (assemblyGetImage vm a)). \<not> isNull k"
  shows "\<exists>table.
           fst (Image_classes vm (fresh_image (assemblyGetImage vm a))) = Inr table \<and>
           dumped_classes vm a = accessor_values table \<and>
           chunks (fst (classes_assembly vm a)) = map (class_toString vm) (accessor_values table) \<and>
           snd (classes_assembly vm a) = None \<and>
           chunks (fst (methods_assembly vm typeArray a)) =
             concat (map (class_lines vm typeArray) (accessor_values table)) \<and>
           tl (fst (methods_assembly vm typeArray a)) =
             methods_klass_loop vm typeArray (accessor_values table) \<and>
           snd (methods_assembly vm typeArray a) = None \<and>
           (\<forall>klass0.
              class_lines vm typeArray klass0 =
                map (\<lambda>m. formatNativePointer (pointerSize vm) (method_relativeVirtualAddress vm m)
                          @ '' '' @ class_type_name vm (traversed_klass vm typeArray klass0)
                          @ ''.'' @ method_name vm m @ [CHR 0x0A])
                  (filter (\<lambda>m. \<not> isNull (method_virtualAddress vm m))
                     (map (reached_method vm typeArray (traversed_klass vm typeArray klass0))
                        (accessor_values
                           (class_methods vm (traversed_klass vm typeArray klass0)))))) \<and>
           chunks (fst (classes_generator vm)) =
             concat (map (\<lambda>assembly. map (class_toString vm) (dumped_classes vm assembly))
                       (entered (classes_assembly vm) (accessor_values (assemblies vm)))) \<and>
           chunks (fst (methods_generator SystemType SystemObject vm)) =
             concat (map (\<lambda>assembly.
                            concat (map (class_lines vm (getTypeArray SystemType SystemObject))
                                      (dumped_classes vm assembly)))
                       (entered (methods_assembly vm (getTypeArray SystemType SystemObject))
                          (accessor_values (assemblies vm)))) \<and>
           (\<forall>i j. i < j \<and> j < length (image_traversal vm (assemblyGetImage vm a)) \<and>
                  class_type_name vm (image_traversal vm (assemblyGetImage vm a) ! i) =
                  class_type_name vm (image_traversal vm (assemblyGetImage vm a) ! j) \<and>
                  image_traversal vm (assemblyGetImage vm a) ! i
                    \<notin> set (drop (Suc i) (image_traversal vm (assemblyGetImage vm a)))
                  \<longrightarrow> image_traversal vm (assemblyGetImage vm a) ! i
                        \<notin> set (accessor_values table))"
proof -
  let ?h = "assemblyGetImage vm a"
  let ?cs = "image_traversal vm ?h"
  let ?table = "table_of (class_type_name vm) ?cs []"
  have col: "collect vm ?cs [] = Inr ?table"
    using assms(2) by (simp add: collect_ok)
  have first: "fst (Image_classes vm (fresh_image ?h)) = Inr ?table"
    by (simp add: Image_classes_fresh col)
  have dc: "dumped_classes vm a = accessor_values ?table"
    using assms(1) by (simp add: dumped_classes_eq col)
  have c1: "chunks (fst (classes_assembly vm a)) = map (class_toString vm) (accessor_values ?table)"
    using assms(1) by (simp add: classes_assembly_eq col chunks_classes_klass_loop)
  have c2: "snd (classes_assembly vm a) = None"
    using assms(1) by (simp add: classes_assembly_eq col)
  have m0: "chunks (fst (methods_assembly vm typeArray a)) =
      concat (map (class_lines vm typeArray) (accessor_values ?table))"
    by (simp add: chunks_methods_assembly dc)
  have m1: "tl (fst (methods_assembly vm typeArray a)) =
      methods_klass_loop vm typeArray (accessor_values ?table)"
    using assms(1) by (simp add: methods_assembly_eq col)
  have m2: "snd (methods_assembly vm typeArray a) = None"
    using assms(1) by (simp add: methods_assembly_eq col)
  have cls: "\<forall>klass0.
      class_lines vm typeArray klass0 =
        map (\<lambda>m. formatNativePointer (pointerSize vm) (method_relativeVirtualAddress vm m)
                  @ '' '' @ class_type_name vm (traversed_klass vm typeArray klass0)
                  @ ''.'' @ method_name vm m @ [CHR 0x0A])
          (filter (\<lambda>m. \<not> isNull (method_virtualAddress vm m))
             (map (reached_method vm typeArray (traversed_klass vm typeArray klass0))
                (accessor_values (class_methods vm (traversed_klass vm typeArray klass0)))))"
    by (intro allI) (rule class_lines_def)
  have gc: "chunks (fst (classes_generator vm)) =
      concat (map (\<lambda>assembly. map (class_toString vm) (dumped_classes vm assembly))
                (entered (classes_assembly vm) (accessor_values (assemblies vm))))"
    by (rule chunks_classes_generator)
  have gm: "chunks (fst (methods_generator SystemType SystemObject vm)) =
      concat (map (\<lambda>assembly.
                     concat (map (class_lines vm (getTypeArray SystemType SystemObject))
                               (dumped_classes vm assembly)))
                (entered (methods_assembly vm (getTypeArray SystemType SystemObject))
                   (accessor_values (assemblies vm))))"
    by (rule chunks_methods_generator)
  have absent: "\<forall>i j. i < j \<and> j < length ?cs \<and>
        class_type_name vm (?cs ! i) = class_type_name vm (?cs ! j) \<and>
        ?cs ! i \<notin> set (drop (Suc i) ?cs) \<longrightarrow> ?cs ! i \<notin> set (accessor_values ?table)"
    using shadowed_absent[of _ _ ?cs "class_type_name vm"] by blast
  show ?thesis
    apply (rule exI[of _ ?table])
    apply (intro conjI)
              apply (rule first)
             apply (rule dc)
            apply (rule c1)
           apply (rule c2)
          apply (rule m0)
         apply (rule m1)
        apply (rule m2)
       apply (rule cls)
      apply (rule gc)
     apply (rule gm)
    apply (rule absent)
    done
qed

theorem C8_dumps_iterate_table_witness:
  "fst (Image_classes twin_vm (fresh_image 13)) = Inr [(''Game.Player'', 105)] \<and>
   image_traversal twin_vm 13 = [104, 105] \<and>
   class_type_name twin_vm 104 = class_type_name twin_vm 105 \<and>
   dumped_classes twin_vm 3 = [105] \<and>
   chunks (fst (classes_assembly twin_vm 3)) = [''class Game.Box<T>''] \<and>
   chunks (fst (methods_assembly twin_vm (getTypeArray (Some 102) 401) 3)) =
     [''0x00002000 Game.Box<System.Object>.Get'' @ [CHR 0x0A],
      ''0x000020c4 Game.Box<System.Object>.Map'' @ [CHR 0x0A]] \<and>
   tl (fst (methods_assembly twin_vm (getTypeArray (Some 102) 401) 3)) =
     methods_klass_loop twin_vm (getTypeArray (Some 102) 401) [105] \<and>
   chunks (fst (classes_generator twin_vm)) =
     [''class System.Object'', ''class System.Type'', ''class UnityEngine.Application'',
      ''class Game.Box<T>''] \<and>
   chunks (fst (methods_generator (Some 102) 401 twin_vm)) =
     [''0x00003000 UnityEngine.Application.get_persistentDataPath'' @ [CHR 0x0A],
      ''0x00003010 UnityEngine.Application.get_identifier'' @ [CHR 0x0A],
      ''0x00003020 UnityEngine.Application.get_version'' @ [CHR 0x0A],
      ''0x00002000 Game.Box<System.Object>.Get'' @ [CHR 0x0A],
      ''0x000020c4 Game.Box<System.Object>.Map'' @ [CHR 0x0A]] \<and>
   104 \<notin> set (accessor_values [(''Game.Player'', 105 :: nat)])"
proof -
  have h: "assemblyGetImage twin_vm 3 = 13"
    by (simp add: twin_vm_def example_vm_fields)
  have a: "\<not> isNull (assemblyGetImage twin_vm 3)"
    by (simp add: h isNull_def)
  have b: "\<forall>k \<in> set (image_traversal twin_vm (assemblyGetImage twin_vm 3)). \<not> isNull k"
    by (simp add: h image_traversal_example isNull_def)
  have t: "fst (Image_classes twin_vm (fresh_image 13)) = Inr [(''Game.Player'', 105)]"
    by (rule example_classes)
  have n: "class_type_name twin_vm 104 = class_type_name twin_vm 105"
    by (simp add: example_names)
  from C8_dumps_iterate_table[OF a b, of "getTypeArray (Some 102) 401" "Some 102" 401,
      unfolded h image_traversal_example]
  obtain table where all:
    "fst (Image_classes twin_vm (fresh_image 13)) = Inr table \<and>
     dumped_classes twin_vm 3 = accessor_values table \<and>
     chunks (fst (classes_assembly twin_vm 3)) =
       map (class_toString twin_vm) (accessor_values table) \<and>
     snd (classes_assembly twin_vm 3) = None \<and>
     chunks (fst (methods_assembly twin_vm (getTypeArray (Some 102) 401) 3)) =
       concat (map (class_lines twin_vm (getTypeArray (Some 102) 401)) (accessor_values table)) \<and>
     tl (fst (methods_assembly twin_vm (getTypeArray (Some 102) 401) 3)) =
       methods_klass_loop twin_vm (getTypeArray (Some 102) 401) (accessor_values table) \<and>
     snd (methods_assembly twin_vm (getTypeArray (Some 102) 401) 3) = None \<and>
     (\<forall>klass0.
        class_lines twin_vm (getTypeArray (Some 102) 401) klass0 =
          map (\<lambda>m. formatNativePointer (pointerSize twin_vm)
                      (method_relativeVirtualAddress twin_vm m)
                    @ '' '' @ class_type_name twin_vm
                                (traversed_klass twin_vm (getTypeArray (Some 102) 401) klass0)
                    @ ''.'' @ method_name twin_vm m @ [CHR 0x0A])
            (filter (\<lambda>m. \<not> isNull (method_virtualAddress twin_vm m))
               (map (reached_method twin_vm (getTypeArray (Some 102) 401)
                       (traversed_klass twin_vm (getTypeArray (Some 102) 401) klass0))
                  (accessor_values
                     (class_methods twin_vm
                        (traversed_klass twin_vm (getTypeArray (Some 102) 401) klass0)))))) \<and>
     chunks (fst (classes_generator twin_vm)) =
       concat (map (\<lambda>assembly. map (class_toString twin_vm) (dumped_classes twin_vm assembly))
                 (entered (classes_assembly twin_vm) (accessor_values (assemblies twin_vm)))) \<and>
     chunks (fst (methods_generator (Some 102) 401 twin_vm)) =
       concat (map (\<lambda>assembly.
                      concat (map (class_lines twin_vm (getTypeArray (Some 102) 401))
                                (dumped_classes twin_vm assembly)))
                 (entered (methods_assembly twin_vm (getTypeArray (Some 102) 401))
                    (accessor_values (assemblies twin_vm)))) \<and>
     (\<forall>i j. i < j \<and> j < length [104 :: nat, 105] \<and>
        class_type_name twin_vm ([104, 105] ! i) = class_type_name twin_vm ([104, 105] ! j) \<and>
        [104 :: nat, 105] ! i \<notin> set (drop (Suc i) [104 :: nat, 105])
        \<longrightarrow> [104 :: nat, 105] ! i \<notin> set (accessor_values table))"
    ..
  from all have tab: "fst (Image_classes twin_vm (fresh_image 13)) = Inr table"
    by (rule conjunct1)
  with t have table: "table = [(''Game.Player'', 105)]" by simp
  have vals: "accessor_values table = [105]"
    by (simp add: table accessor_values_def)
  from all have "dumped_classes twin_vm 3 = accessor_values table"
    by (elim conjE)
  then have dc: "dumped_classes twin_vm 3 = [105]"
    by (simp add: vals)
  from all have "chunks (fst (classes_assembly twin_vm 3)) =
       map (class_toString twin_vm) (accessor_values table)"
    by (elim conjE)
  then have cl: "chunks (fst (classes_assembly twin_vm 3)) = [''class Game.Box<T>'']"
    by (simp add: vals twin_toString)
  from all have "chunks (fst (methods_assembly twin_vm (getTypeArray (Some 102) 401) 3)) =
       concat (map (class_lines twin_vm (getTypeArray (Some 102) 401)) (accessor_values table))"
    by (elim conjE)
  then have me: "chunks (fst (methods_assembly twin_vm (getTypeArray (Some 102) 401) 3)) =
     [''0x00002000 Game.Box<System.Object>.Get'' @ [CHR 0x0A],
      ''0x000020c4 Game.Box<System.Object>.Map'' @ [CHR 0x0A]]"
    by (simp add: vals twin_class_lines)
  from all have "tl (fst (methods_assembly twin_vm (getTypeArray (Some 102) 401) 3)) =
       methods_klass_loop twin_vm (getTypeArray (Some 102) 401) (accessor_values table)"
    by (elim conjE)
  then have lp: "tl (fst (methods_assembly twin_vm (getTypeArray (Some 102) 401) 3)) =
       methods_klass_loop twin_vm (getTypeArray (Some 102) 401) [105]"
    by (simp add: vals)
  from all have "chunks (fst (classes_generator twin_vm)) =
       concat (map (\<lambda>assembly. map (class_toString twin_vm) (dumped_classes twin_vm assembly))
                 (entered (classes_assembly twin_vm) (accessor_values (assemblies twin_vm))))"
    by (elim conjE)
  then have gc: "chunks (fst (classes_generator twin_vm)) =
     [''class System.Object'', ''class System.Type'', ''class UnityEngine.Application'',
      ''class Game.Box<T>'']"
    by (simp add: twin_entered twin_dumped_classes twin_toString del: One_nat_def)
  from all have "chunks (fst (methods_generator (Some 102) 401 twin_vm)) =
       concat (map (\<lambda>assembly.
                      concat (map (class_lines twin_vm (getTypeArray (Some 102) 401))
                                (dumped_classes twin_vm assembly)))
                 (entered (methods_assembly twin_vm (getTypeArray (Some 102) 401))
                    (accessor_values (assemblies twin_vm))))"
    by (elim conjE)
  then have gm: "chunks (fst (methods_generator (Some 102) 401 twin_vm)) =
     [''0x00003000 UnityEngine.Application.get_persistentDataPath'' @ [CHR 0x0A],
      ''0x00003010 UnityEngine.Application.get_identifier'' @ [CHR 0x0A],
      ''0x00003020 UnityEngine.Application.get_version'' @ [CHR 0x0A],
      ''0x00002000 Game.Box<System.Object>.Get'' @ [CHR 0x0A],
      ''0x000020c4 Game.Box<System.Object>.Map'' @ [CHR 0x0A]]"
    by (simp add: twin_entered twin_dumped_classes twin_class_lines del: One_nat_def)
  from all have sh: "\<forall>i j. i < j \<and> j < length [104 :: nat, 105] \<and>
        class_type_name twin_vm ([104, 105] ! i) = class_type_name twin_vm ([104, 105] ! j) \<and>
        [104 :: nat, 105] ! i \<notin> set (drop (Suc i) [104 :: nat, 105])
        \<longrightarrow> [104 :: nat, 105] ! i \<notin> set (accessor_values table)"
    by (elim conjE)
  note ab = sh[rule_format, of 0 1]
  have "(0 :: nat) < 1 \<and> 1 < length [104 :: nat, 105] \<and>
        class_type_name twin_vm ([104, 105] ! 0) = class_type_name twin_vm ([104, 105] ! 1) \<and>
        [104 :: nat, 105] ! 0 \<notin> set (drop (Suc 0) [104, 105])"
    using n by simp
  from ab[OF this] have absent: "104 \<notin> set (accessor_values [(''Game.Player'', 105 :: nat)])"
    by (simp add: table)
  have tr: "image_traversal twin_vm 13 = [104, 105]"
    by (rule image_traversal_example)
  from t tr n dc cl me lp gc gm absent show ?thesis
    by (intro conjI)
qed

section \<open>C9: the default destination\<close>



section \<open>C10: the name of an assembly\<close>

text \<open>
  C10, as stated, fails: an image whose name does not end in \<open>.dll\<close> keeps its name as the
  assembly name, so the image name is not the assembly name plus the extension. Here the
  image is named \<open>__Generated\<close>.
\<close>

theorem C10_counterexample:
  "Assembly_name generated_vm 3 = Inr ''__Generated'' \<and>
   imageGetName generated_vm (assemblyGetImage generated_vm 3) \<noteq> ''__Generated'' @ ''.dll''"
  by (simp add: Assembly_name_eq isNull_def generated_vm_def example_vm_fields)

text \<open>
  C10, amended: for every assembly over a non-null image handle, when the image name is
  \<open>base\<close> followed by \<open>.dll\<close> and that is the first place where \<open>.dll\<close> occurs in it, the
  assembly name is \<open>base\<close>, so the image name is the assembly name plus \<open>.dll\<close>; when
  \<open>.dll\<close> does not occur in the image name, the assembly name is the image name.
\<close>

theorem C10_Assembly_name:
  assumes "\<not> isNull (assemblyGetImage vm assembly)"
  shows "(imageGetName vm (assemblyGetImage vm assembly) = base @ ''.dll'' \<and>
          js_indexOf ''.dll'' (base @ ''.dll'') = Some (length base)
            \<longrightarrow> Assembly_name vm assembly = Inr base) \<and>
         (js_indexOf ''.dll'' (imageGetName vm (assemblyGetImage vm assembly)) = None
            \<longrightarrow> Assembly_name vm assembly = Inr (imageGetName vm (assemblyGetImage vm assembly)))"
proof -
  have name: "Assembly_name vm assembly =
      Inr (js_replace ''.dll'' [] (imageGetName vm (assemblyGetImage vm assembly)))"
    using assms by (simp add: Assembly_name_eq)
  show ?thesis
  proof (intro conjI impI)
    assume h: "imageGetName vm (assemblyGetImage vm assembly) = base @ ''.dll'' \<and>
      js_indexOf ''.dll'' (base @ ''.dll'') = Some (length base)"
    then have "js_replace ''.dll'' [] (base @ ''.dll'') = base"
      using js_replace_at_index[of "''.dll''" "base @ ''.dll''" "length base" "[]"] by simp
    with h name show "Assembly_name vm assembly = Inr base" by simp
  next
    assume "js_indexOf ''.dll'' (imageGetName vm (assemblyGetImage vm assembly)) = None"
    then show "Assembly_name vm assembly = Inr (imageGetName vm (assemblyGetImage vm assembly))"
      using name by (simp add: js_replace_no_index)
  qed
qed

theorem C10_Assembly_name_witness:
  "Assembly_name example_vm 1 = Inr ''mscorlib'' \<and>
   Assembly_name generated_vm 3 = Inr ''__Generated''"
proof -
  have a: "\<not> isNull (assemblyGetImage example_vm 1)"
    by (simp add: isNull_def example_vm_fields)
  have b: "imageGetName example_vm (assemblyGetImage example_vm 1) = ''mscorlib'' @ ''.dll'' \<and>
           js_indexOf ''.dll'' (''mscorlib'' @ ''.dll'') = Some (length ''mscorlib'')"
    by (simp add: example_vm_fields)
  have c: "\<not> isNull (assemblyGetImage generated_vm 3)"
    by (simp add: isNull_def generated_vm_def example_vm_fields)
  have d: "imageGetName generated_vm (assemblyGetImage generated_vm 3) = ''__Generated''"
    by (simp add: generated_vm_def example_vm_fields)
  have e: "js_indexOf ''.dll'' ''__Generated'' = None"
    by simp
  from C10_Assembly_name[OF a, of "''mscorlib''"] b
  have "Assembly_name example_vm 1 = Inr ''mscorlib''" by blast
  moreover from C10_Assembly_name[OF c, of "[]"] d e
  have "Assembly_name generated_vm 3 = Inr ''__Generated''" by simp
  ultimately show ?thesis by simp
qed

end
